theory Spec2Isabelle
  imports Complex_Main "HOL-Library.AList"
begin

section \<open>Data model (types.ts)\<close>

text \<open>
  JavaScript numbers are modelled as real numbers (exact arithmetic, no rounding, no NaN),
  except waypoint indices and millisecond timestamps (\<open>Date.now()\<close>), which are integers.
  A value that may be \<open>null\<close> or \<open>undefined\<close> is an \<open>option\<close>.
\<close>

datatype DroneStatus = idle | dispatched | running | completed | returning

datatype MissionStatus = ms_pending | ms_dispatched | ms_active | ms_completed

datatype DroneState = OFF | BOOTING | IDLE | ARMED | TAKEOFF | ENROUTE | HOVER
  | RETURNING | LANDING | EMERGENCY

datatype MavCmd = NAV_TAKEOFF | NAV_WAYPOINT | NAV_LOITER_TIME | NAV_RETURN_TO_LAUNCH | NAV_LAND

datatype FlightMode = STABILIZE | LOITER | AUTO | RTL | GUIDED | LAND

datatype Priority = Normal | Emergency

record Location =
  loc_lat :: real
  loc_lng :: real
  address :: "string option"

record MedicineRequest =
  req_id :: string
  hospitalId :: string
  hospitalName :: string
  req_location :: Location
  req_origin :: "Location option"
  medicines :: "string list"
  priority :: Priority
  req_status :: MissionStatus
  req_timestamp :: int
  req_droneId :: "string option"

record MissionItem =
  seq :: int
  command :: MavCmd
  wp_p1 :: "real option"
  wp_lat :: real
  wp_lng :: real
  wp_alt :: real

record DroneTelemetry =
  t_latitude :: real
  t_longitude :: real
  t_altitude :: real
  t_speed :: real
  t_verticalSpeed :: real
  t_battery :: real
  t_bearing :: real
  t_distanceTraveled :: real
  t_distanceRemaining :: real
  t_status :: DroneState
  t_connectionStrength :: real
  t_satellites :: real
  t_flightTime :: real

text \<open>\<open>Partial<DroneTelemetry>\<close>: the fields the callers of \<open>updateDroneTelemetry\<close> pass.\<close>

record PartialTelemetry =
  pt_latitude :: "real option"
  pt_longitude :: "real option"
  pt_altitude :: "real option"
  pt_speed :: "real option"
  pt_verticalSpeed :: "real option"
  pt_battery :: "real option"
  pt_bearing :: "real option"
  pt_status :: "DroneState option"

record Drone =
  drone_id :: string
  drone_name :: string
  status :: DroneStatus
  currentLocation :: Location
  assignedTaskId :: "string option"
  assignedRoute :: "MissionItem list option"
  telemetry :: DroneTelemetry
  drone_homeLocation :: Location
  color :: string

text \<open>A JavaScript \<open>Map<string, Drone>\<close> keeps insertion order: an association list.\<close>

type_synonym DroneMap = "(string \<times> Drone) list"

definition CENTRAL_HOSPITAL_LOCATION :: Location where
  "CENTRAL_HOSPITAL_LOCATION = \<lparr>loc_lat = 185204 / 10000, loc_lng = 738567 / 10000, address = None\<rparr>"

section \<open>Fleet coordinator (contexts/DroneContext.tsx)\<close>

definition initial_telemetry :: DroneTelemetry where
  "initial_telemetry = \<lparr>t_latitude = loc_lat CENTRAL_HOSPITAL_LOCATION,
     t_longitude = loc_lng CENTRAL_HOSPITAL_LOCATION, t_altitude = 0, t_speed = 0,
     t_verticalSpeed = 0, t_battery = 100, t_bearing = 0, t_distanceTraveled = 0,
     t_distanceRemaining = 0, t_status = IDLE, t_connectionStrength = 100,
     t_satellites = 14, t_flightTime = 0\<rparr>"

definition initial_drone :: "string \<Rightarrow> string \<Rightarrow> string \<Rightarrow> Drone" where
  "initial_drone droneId nm col = \<lparr>drone_id = droneId, drone_name = nm, status = idle,
     currentLocation = CENTRAL_HOSPITAL_LOCATION, assignedTaskId = None, assignedRoute = None,
     telemetry = initial_telemetry, drone_homeLocation = CENTRAL_HOSPITAL_LOCATION,
     color = col\<rparr>"

definition createInitialDrones :: DroneMap where
  "createInitialDrones =
     [(''DRONE-1'', initial_drone ''DRONE-1'' ''Drone 1'' ''#10b981''),
      (''DRONE-2'', initial_drone ''DRONE-2'' ''Drone 2'' ''#3b82f6''),
      (''DRONE-3'', initial_drone ''DRONE-3'' ''Drone 3'' ''#f59e0b''),
      (''DRONE-4'', initial_drone ''DRONE-4'' ''Drone 4'' ''#ec4899''),
      (''DRONE-5'', initial_drone ''DRONE-5'' ''Drone 5'' ''#8b5cf6'')]"

definition getAvailableDrone :: "DroneMap \<Rightarrow> Drone option" where
  "getAvailableDrone drones = find (\<lambda>drone. status drone = idle) (map snd drones)"

definition assignTaskToDrone :: "string \<Rightarrow> MedicineRequest \<Rightarrow> MissionItem list \<Rightarrow> DroneMap \<Rightarrow> DroneMap" where
  "assignTaskToDrone droneId task route prev =
     (case map_of prev droneId of
        Some drone \<Rightarrow> AList.update droneId
          (drone\<lparr>status := dispatched, assignedTaskId := Some (req_id task),
                 assignedRoute := Some route\<rparr>) prev
      | None \<Rightarrow> prev)"

definition updateDroneStatus :: "string \<Rightarrow> DroneStatus \<Rightarrow> DroneMap \<Rightarrow> DroneMap" where
  "updateDroneStatus droneId st prev =
     (case map_of prev droneId of
        Some drone \<Rightarrow> AList.update droneId (drone\<lparr>status := st\<rparr>) prev
      | None \<Rightarrow> prev)"

definition updateDroneLocation :: "string \<Rightarrow> Location \<Rightarrow> DroneMap \<Rightarrow> DroneMap" where
  "updateDroneLocation droneId location prev =
     (case map_of prev droneId of
        Some drone \<Rightarrow> AList.update droneId (drone\<lparr>currentLocation := location\<rparr>) prev
      | None \<Rightarrow> prev)"

definition merge_telemetry :: "DroneTelemetry \<Rightarrow> PartialTelemetry \<Rightarrow> DroneTelemetry" where
  "merge_telemetry t pt = t\<lparr>
     t_latitude := (case pt_latitude pt of Some v \<Rightarrow> v | None \<Rightarrow> t_latitude t),
     t_longitude := (case pt_longitude pt of Some v \<Rightarrow> v | None \<Rightarrow> t_longitude t),
     t_altitude := (case pt_altitude pt of Some v \<Rightarrow> v | None \<Rightarrow> t_altitude t),
     t_speed := (case pt_speed pt of Some v \<Rightarrow> v | None \<Rightarrow> t_speed t),
     t_verticalSpeed := (case pt_verticalSpeed pt of Some v \<Rightarrow> v | None \<Rightarrow> t_verticalSpeed t),
     t_battery := (case pt_battery pt of Some v \<Rightarrow> v | None \<Rightarrow> t_battery t),
     t_bearing := (case pt_bearing pt of Some v \<Rightarrow> v | None \<Rightarrow> t_bearing t),
     t_status := (case pt_status pt of Some v \<Rightarrow> v | None \<Rightarrow> t_status t)\<rparr>"

definition updateDroneTelemetry :: "string \<Rightarrow> PartialTelemetry \<Rightarrow> DroneMap \<Rightarrow> DroneMap" where
  "updateDroneTelemetry droneId pt prev =
     (case map_of prev droneId of
        Some drone \<Rightarrow> AList.update droneId
          (drone\<lparr>telemetry := merge_telemetry (telemetry drone) pt\<rparr>) prev
      | None \<Rightarrow> prev)"

definition updateDroneRoute :: "string \<Rightarrow> MissionItem list \<Rightarrow> DroneMap \<Rightarrow> DroneMap" where
  "updateDroneRoute droneId route prev =
     (case map_of prev droneId of
        Some drone \<Rightarrow> AList.update droneId (drone\<lparr>assignedRoute := Some route\<rparr>) prev
      | None \<Rightarrow> prev)"

definition completeDroneTask :: "string \<Rightarrow> DroneMap \<Rightarrow> DroneMap" where
  "completeDroneTask droneId prev =
     (case map_of prev droneId of
        Some drone \<Rightarrow> AList.update droneId
          (drone\<lparr>status := idle, assignedTaskId := None, assignedRoute := None,
                 currentLocation := drone_homeLocation drone\<rparr>) prev
      | None \<Rightarrow> prev)"

definition getDroneByTaskId :: "string \<Rightarrow> DroneMap \<Rightarrow> Drone option" where
  "getDroneByTaskId taskId drones =
     find (\<lambda>drone. assignedTaskId drone = Some taskId) (map snd drones)"

section \<open>Mission control: constants, physics record, numeric helpers\<close>

text \<open>
  The multi-drone \<open>MissionControl\<close> component. The integrator functions take the
  simulation speed multiplier as a parameter; the component fixes it to \<open>SIM_SPEED_MULT\<close>.
\<close>

definition SIM_SPEED_MULT :: real where "SIM_SPEED_MULT = 4"
definition DEFAULT_ALT :: real where "DEFAULT_ALT = 100"
definition WP_RADIUS :: real where "WP_RADIUS = 15"
definition RTL_ALT :: real where "RTL_ALT = 50"

record DronePhysics =
  lat :: real
  lng :: real
  alt :: real
  heading :: real
  speed :: real
  vSpeed :: real
  roll :: real
  pitch :: real
  battery_v :: real
  battery_rem :: real
  wind_dir :: real
  wind_spd :: real
  lastTick :: int
  armed :: bool
  flightMode :: FlightMode
  activeWpIndex :: int
  homeLocation :: Location
  deliveryWaitTime :: real
  isReturningHome :: bool

datatype Severity = INFO | WARNING | ERROR | CRITICAL

text \<open>The log lines of \<open>addLog\<close>, by kind; the drone's name is kept, the formatting is not.\<close>

datatype LogText = MISSION_STARTED string | INITIATING_RTL string | MANUAL_CONTROL_ACTIVE
  | MANUAL_OVERRIDE_SWITCHING_TO_GUIDED | MODE_CHANGED string FlightMode | MOTORS_DISARMED string

text \<open>
  What a tick asks of its collaborators: the queued \<open>setDrones\<close> updaters of the drone
  context, the request store's \<open>updateRequestStatus\<close>, and the log.
\<close>

datatype effect =
    UpdateDroneStatus string DroneStatus
  | CompleteDroneTask string
  | UpdateDroneTelemetry string PartialTelemetry
  | UpdateRequestStatus string MissionStatus
  | AddLog LogText Severity

record Target =
  targetLat :: real
  targetLng :: real
  targetAlt :: real

type_synonym Controls = "(string \<times> bool) list"

definition toRad :: "real \<Rightarrow> real" where
  "toRad d = d * pi / 180"

definition toDeg :: "real \<Rightarrow> real" where
  "toDeg r = r * 180 / pi"

definition atan2 :: "real \<Rightarrow> real \<Rightarrow> real" where
  \<comment> \<open>\<open>Math.atan2(y, x)\<close>: the angle of the point \<open>(x, y)\<close> in \<open>(-pi, pi]\<close>, 0 at the origin.\<close>
  "atan2 y x =
     (if 0 < x then arctan (y / x)
      else if x < 0 \<and> 0 \<le> y then arctan (y / x) + pi
      else if x < 0 then arctan (y / x) - pi
      else if 0 < y then pi / 2
      else if y < 0 then - (pi / 2)
      else 0)"

definition js_trunc :: "real \<Rightarrow> int" where
  "js_trunc r = (if 0 \<le> r then \<lfloor>r\<rfloor> else \<lceil>r\<rceil>)"

definition js_rem :: "real \<Rightarrow> real \<Rightarrow> real" where
  \<comment> \<open>The \<open>%\<close> operator: the remainder has the sign of the dividend.\<close>
  "js_rem x y = x - y * of_int (js_trunc (x / y))"

definition getDist :: "real \<Rightarrow> real \<Rightarrow> real \<Rightarrow> real \<Rightarrow> real" where
  "getDist lat1 lon1 lat2 lon2 =
     (let R = 6371000;
          phi1 = toRad lat1; phi2 = toRad lat2;
          dphi = toRad (lat2 - lat1); dlam = toRad (lon2 - lon1);
          a = (sin (dphi / 2))\<^sup>2 + cos phi1 * cos phi2 * (sin (dlam / 2))\<^sup>2
      in R * 2 * atan2 (sqrt a) (sqrt (1 - a)))"

definition getBearing :: "real \<Rightarrow> real \<Rightarrow> real \<Rightarrow> real \<Rightarrow> real" where
  "getBearing lat1 lon1 lat2 lon2 =
     (let phi1 = toRad lat1; phi2 = toRad lat2;
          dlam = toRad (lon2 - lon1);
          y = sin dlam * cos phi2;
          x = cos phi1 * sin phi2 - sin phi1 * cos phi2 * cos dlam
      in js_rem (toDeg (atan2 y x) + 360) 360)"

text \<open>The forward projection the integrator applies when \<open>moveDist > 0\<close>.\<close>

definition destination :: "real \<Rightarrow> real \<Rightarrow> real \<Rightarrow> real \<Rightarrow> real \<times> real" where
  "destination lat1 lng1 headingDeg moveDist =
     (let latRad = toRad lat1; lngRad = toRad lng1; headRad = toRad headingDeg;
          angularDist = moveDist / 6371000;
          newLat = arcsin (sin latRad * cos angularDist
                           + cos latRad * sin angularDist * cos headRad);
          newLng = lngRad + atan2 (sin headRad * sin angularDist * cos latRad)
                                  (cos angularDist - sin latRad * sin newLat)
      in (toDeg newLat, toDeg newLng))"

text \<open>\<open>while (angleDiff > 180) angleDiff -= 360; while (angleDiff < -180) angleDiff += 360;\<close>\<close>

function wrap_above :: "real \<Rightarrow> real" where
  "wrap_above a = (if 180 < a then wrap_above (a - 360) else a)"
  by pat_completeness auto
termination
proof (relation "measure (\<lambda>a. nat \<lceil>a / 360\<rceil>)")
  show "wf (measure (\<lambda>a::real. nat \<lceil>a / 360\<rceil>))" by simp
next
  fix a :: real
  assume h: "180 < a"
  have e: "\<lceil>(a - 360) / 360\<rceil> = \<lceil>a / 360\<rceil> - 1"
    by (simp add: diff_divide_distrib)
  have "0 < \<lceil>a / 360\<rceil>" using h by (simp add: ceiling_less_iff)
  then show "(a - 360, a) \<in> measure (\<lambda>a. nat \<lceil>a / 360\<rceil>)"
    using e by simp
qed

function wrap_below :: "real \<Rightarrow> real" where
  "wrap_below a = (if a < - 180 then wrap_below (a + 360) else a)"
  by pat_completeness auto
termination
proof (relation "measure (\<lambda>a. nat (- \<lfloor>a / 360\<rfloor>))")
  show "wf (measure (\<lambda>a::real. nat (- \<lfloor>a / 360\<rfloor>)))" by simp
next
  fix a :: real
  assume h: "a < - 180"
  have e: "\<lfloor>(a + 360) / 360\<rfloor> = \<lfloor>a / 360\<rfloor> + 1"
    by (simp add: add_divide_distrib)
  have "\<lfloor>a / 360\<rfloor> < 0" using h by (simp add: floor_less_iff)
  then show "(a + 360, a) \<in> measure (\<lambda>a. nat (- \<lfloor>a / 360\<rfloor>))"
    using e by simp
qed

declare wrap_above.simps [simp del]
declare wrap_below.simps [simp del]

section \<open>The tick: flight-mode state machine\<close>

definition route_at :: "MissionItem list \<Rightarrow> int \<Rightarrow> MissionItem option" where
  \<comment> \<open>\<open>drone.assignedRoute[physics.activeWpIndex]\<close>: \<open>undefined\<close> outside the array.\<close>
  "route_at route i =
     (if 0 \<le> i \<and> i < int (length route) then Some (route ! nat i) else None)"

definition drain_battery :: "real \<Rightarrow> DronePhysics \<Rightarrow> DronePhysics" where
  "drain_battery dt physics =
     (let rem = battery_rem physics
                - (if flightMode physics = STABILIZE then 1 / 100 else 5 / 100) * dt
      in physics\<lparr>battery_rem := rem, battery_v := 22 + (rem / 100) * (32 / 10)\<rparr>)"

definition delivery_landing :: "real \<Rightarrow> Drone \<Rightarrow> DronePhysics \<Rightarrow> DronePhysics \<times> effect list" where
  \<comment> \<open>On the ground at the \<open>NAV_LAND\<close> waypoint (\<open>physics.alt < 0.5\<close>).\<close>
  "delivery_landing dt drone physics =
     (if \<not> isReturningHome physics \<and> deliveryWaitTime physics = 0 then
        (physics\<lparr>deliveryWaitTime := dt\<rparr>,
         (case assignedTaskId drone of
            Some taskId \<Rightarrow> if taskId \<noteq> [] then [UpdateRequestStatus taskId ms_completed] else []
          | None \<Rightarrow> []))
      else if \<not> isReturningHome physics \<and> deliveryWaitTime physics < 3 then
        (physics\<lparr>deliveryWaitTime := deliveryWaitTime physics + dt\<rparr>, [])
      else if \<not> isReturningHome physics \<and> 3 \<le> deliveryWaitTime physics then
        (physics\<lparr>isReturningHome := True, armed := True, flightMode := RTL\<rparr>,
         [AddLog (INITIATING_RTL (drone_name drone)) INFO])
      else (physics, []))"

definition waypoint_reached :: "real \<Rightarrow> Drone \<Rightarrow> MissionItem list \<Rightarrow> MissionItem \<Rightarrow> DronePhysics
    \<Rightarrow> DronePhysics \<times> Target \<times> effect list" where
  "waypoint_reached dt drone route nextWP physics =
     (if command nextWP = NAV_LAND then
        (let tgt = \<lparr>targetLat = wp_lat nextWP, targetLng = wp_lng nextWP, targetAlt = 0\<rparr>
         in if alt physics < 1 / 2 then
              (let (physics', es) = delivery_landing dt drone physics in (physics', tgt, es))
            else (physics, tgt, []))
      else
        (let tgt = \<lparr>targetLat = wp_lat nextWP, targetLng = wp_lng nextWP,
                    targetAlt = wp_alt nextWP\<rparr>
         in if activeWpIndex physics < int (length route) - 1 then
              (physics\<lparr>activeWpIndex := activeWpIndex physics + 1\<rparr>, tgt, [])
            else (physics, tgt, [])))"

definition auto_branch :: "real \<Rightarrow> string \<Rightarrow> Drone \<Rightarrow> MissionItem list \<Rightarrow> Target \<Rightarrow> DronePhysics
    \<Rightarrow> DronePhysics \<times> Target \<times> effect list" where
  "auto_branch dt droneId drone route tgt0 physics =
     (let (p1, e1) =
            (if activeWpIndex physics = - 1 then
               (physics\<lparr>activeWpIndex := 0\<rparr>,
                [UpdateDroneStatus droneId running,
                 AddLog (MISSION_STARTED (drone_name drone)) INFO])
             else (physics, []))
      in case route_at route (activeWpIndex p1) of
           None \<Rightarrow> (p1, tgt0, e1)
         | Some nextWP \<Rightarrow>
             (let dist = getDist (lat p1) (lng p1) (wp_lat nextWP) (wp_lng nextWP)
              in if dist < WP_RADIUS \<and> \<bar>alt p1 - wp_alt nextWP\<bar> < 2 then
                   (let (p2, tgt, e2) = waypoint_reached dt drone route nextWP p1
                    in (p2, tgt, e1 @ e2))
                 else (p1, \<lparr>targetLat = wp_lat nextWP, targetLng = wp_lng nextWP,
                            targetAlt = wp_alt nextWP\<rparr>, e1)))"

definition rtl_branch :: "DronePhysics \<Rightarrow> DronePhysics \<times> Target \<times> effect list" where
  "rtl_branch physics =
     (let tgt = \<lparr>targetLat = loc_lat (homeLocation physics),
                 targetLng = loc_lng (homeLocation physics),
                 targetAlt = max (alt physics) RTL_ALT\<rparr>
      in if getDist (lat physics) (lng physics) (targetLat tgt) (targetLng tgt) < 5 then
           (physics\<lparr>flightMode := LAND\<rparr>, tgt, [])
         else (physics, tgt, []))"

definition land_branch :: "string \<Rightarrow> Target \<Rightarrow> DronePhysics \<Rightarrow> DronePhysics \<times> Target \<times> effect list" where
  "land_branch droneId tgt0 physics =
     (let tgt = tgt0\<lparr>targetAlt := 0\<rparr>
      in if alt physics < 1 / 2 then
           (let p1 = physics\<lparr>armed := False, flightMode := STABILIZE\<rparr>
            in if isReturningHome p1 then
                 (p1\<lparr>isReturningHome := False, deliveryWaitTime := 0, activeWpIndex := - 1\<rparr>,
                  tgt, [CompleteDroneTask droneId])
               else (p1, tgt, []))
         else (physics, tgt, []))"

definition state_machine :: "real \<Rightarrow> string \<Rightarrow> Drone \<Rightarrow> MissionItem list \<Rightarrow> DronePhysics
    \<Rightarrow> DronePhysics \<times> Target \<times> effect list" where
  "state_machine dt droneId drone route physics =
     (let tgt0 = \<lparr>targetLat = lat physics, targetLng = lng physics, targetAlt = alt physics\<rparr>
      in if armed physics then
           (let p = drain_battery dt physics
            in if flightMode p = AUTO \<and> 0 < length route then
                 auto_branch dt droneId drone route tgt0 p
               else if flightMode p = RTL then rtl_branch p
               else if flightMode p = LAND then land_branch droneId tgt0 p
               else (p, tgt0, []))
         else (physics, tgt0, []))"

section \<open>The tick: physics integrator\<close>

definition vertical :: "real \<Rightarrow> real \<Rightarrow> Target \<Rightarrow> DronePhysics \<Rightarrow> DronePhysics" where
  "vertical mult dt tgt physics =
     (let vErr = targetAlt tgt - alt physics;
          vSpdTarget = max (- 3) (min 5 vErr);
          vs = vSpeed physics + (vSpdTarget - vSpeed physics) * 2 * dt
      in physics\<lparr>vSpeed := vs, alt := alt physics + vs * dt * mult\<rparr>)"

definition turn :: "real \<Rightarrow> real \<Rightarrow> Target \<Rightarrow> DronePhysics \<Rightarrow> DronePhysics" where
  "turn mult dt tgt physics =
     (let bearing = getBearing (lat physics) (lng physics) (targetLat tgt) (targetLng tgt);
          angleDiff = wrap_below (wrap_above (bearing - heading physics));
          turnRate = 30
      in if 1 < \<bar>angleDiff\<bar> then
           physics\<lparr>heading := js_rem (heading physics
                       + sgn angleDiff * min \<bar>angleDiff\<bar> (turnRate * dt * mult) + 360) 360,
                   roll := sgn angleDiff * (- 15)\<rparr>
         else physics\<lparr>roll := 0\<rparr>)"

definition translate :: "real \<Rightarrow> real \<Rightarrow> real \<Rightarrow> DronePhysics \<Rightarrow> DronePhysics" where
  "translate mult dt groundSpeed physics =
     (let moveDist = groundSpeed * dt * mult
      in if 0 < moveDist then
           (let (newLat, newLng) = destination (lat physics) (lng physics) (heading physics) moveDist
            in physics\<lparr>lat := newLat, lng := newLng, speed := groundSpeed * (36 / 10)\<rparr>)
         else physics)"

definition horizontal :: "real \<Rightarrow> real \<Rightarrow> Target \<Rightarrow> DronePhysics \<Rightarrow> DronePhysics" where
  "horizontal mult dt tgt physics =
     (if flightMode physics \<in> {AUTO, RTL, GUIDED, LAND} then
        translate mult dt 15 (turn mult dt tgt physics)
      else physics)"

definition movement :: "real \<Rightarrow> real \<Rightarrow> Target \<Rightarrow> DronePhysics \<Rightarrow> DronePhysics" where
  "movement mult dt tgt physics =
     (if armed physics then horizontal mult dt tgt (vertical mult dt tgt physics) else physics)"

definition basic_telemetry :: "DronePhysics \<Rightarrow> PartialTelemetry" where
  "basic_telemetry physics =
     \<lparr>pt_latitude = Some (lat physics), pt_longitude = Some (lng physics),
      pt_altitude = Some (alt physics), pt_speed = Some (speed physics),
      pt_verticalSpeed = Some (vSpeed physics), pt_battery = Some (battery_rem physics),
      pt_bearing = Some (heading physics),
      pt_status = Some (if armed physics then ENROUTE else IDLE)\<rparr>"

section \<open>The tick: manual control\<close>

definition ctl :: "Controls \<Rightarrow> string \<Rightarrow> bool" where
  \<comment> \<open>\<open>activeControls[key]\<close> as a condition: a missing key is falsy.\<close>
  "ctl activeControls k = (map_of activeControls k = Some True)"

definition any_active :: "Controls \<Rightarrow> bool" where
  \<comment> \<open>\<open>Object.values(activeControls).some(v => v)\<close>\<close>
  "any_active activeControls = list_ex snd activeControls"

definition mode_override :: "Controls \<Rightarrow> DronePhysics \<Rightarrow> DronePhysics \<times> effect list" where
  "mode_override activeControls physics =
     (if any_active activeControls
         \<and> flightMode physics \<noteq> GUIDED
         \<and> (flightMode physics = AUTO \<or> flightMode physics = RTL
            \<or> flightMode physics = STABILIZE) then
        (physics\<lparr>flightMode := GUIDED, isReturningHome := False\<rparr>,
         [AddLog MANUAL_CONTROL_ACTIVE WARNING])
      else (physics, []))"

definition throttle_yaw :: "real \<Rightarrow> real \<Rightarrow> Controls \<Rightarrow> DronePhysics \<Rightarrow> DronePhysics" where
  "throttle_yaw ALT_SPEED YAW_SPEED activeControls physics =
     (let p1 = (if ctl activeControls ''up'' then physics\<lparr>alt := alt physics + ALT_SPEED\<rparr>
                else physics);
          p2 = (if ctl activeControls ''down'' then p1\<lparr>alt := max 0 (alt p1 - ALT_SPEED)\<rparr>
                else p1);
          p3 = (if ctl activeControls ''turnLeft''
                then p2\<lparr>heading := js_rem (heading p2 - YAW_SPEED + 360) 360\<rparr> else p2)
      in if ctl activeControls ''turnRight''
         then p3\<lparr>heading := js_rem (heading p3 + YAW_SPEED) 360\<rparr> else p3)"

definition pitch_roll :: "real \<Rightarrow> Controls \<Rightarrow> DronePhysics \<Rightarrow> DronePhysics" where
  "pitch_roll MOVE_SPEED activeControls physics =
     (if ctl activeControls ''forward'' \<or> ctl activeControls ''backward''
         \<or> ctl activeControls ''left'' \<or> ctl activeControls ''right'' then
        (let h = heading physics;
             (dx1, dy1, p1) =
               (if ctl activeControls ''forward'' then
                  (cos (toRad h), sin (toRad h), physics\<lparr>pitch := 15\<rparr>)
                else if ctl activeControls ''backward'' then
                  (- cos (toRad h), - sin (toRad h), physics\<lparr>pitch := - 15\<rparr>)
                else (0, 0, physics\<lparr>pitch := pitch physics * (8 / 10)\<rparr>));
             (dx, dy, p2) =
               (if ctl activeControls ''left'' then
                  (dx1 + cos (toRad (h - 90)), dy1 + sin (toRad (h - 90)), p1\<lparr>roll := - 15\<rparr>)
                else if ctl activeControls ''right'' then
                  (dx1 + cos (toRad (h + 90)), dy1 + sin (toRad (h + 90)), p1\<lparr>roll := 15\<rparr>)
                else (dx1, dy1, p1\<lparr>roll := roll p1 * (8 / 10)\<rparr>))
         in p2\<lparr>lat := lat p2 + MOVE_SPEED * dx, lng := lng p2 + MOVE_SPEED * dy\<rparr>)
      else physics\<lparr>pitch := pitch physics * (6 / 10), roll := roll physics * (6 / 10)\<rparr>)"

definition movedManually :: "Controls \<Rightarrow> bool" where
  "movedManually activeControls =
     (ctl activeControls ''up'' \<or> ctl activeControls ''down''
      \<or> ctl activeControls ''turnLeft'' \<or> ctl activeControls ''turnRight''
      \<or> ctl activeControls ''forward'' \<or> ctl activeControls ''backward''
      \<or> ctl activeControls ''left'' \<or> ctl activeControls ''right'')"

definition manual_telemetry :: "DronePhysics \<Rightarrow> PartialTelemetry" where
  "manual_telemetry physics =
     \<lparr>pt_latitude = Some (lat physics), pt_longitude = Some (lng physics),
      pt_altitude = Some (alt physics), pt_speed = None, pt_verticalSpeed = None,
      pt_battery = None, pt_bearing = Some (heading physics), pt_status = Some ENROUTE\<rparr>"

definition manual_control :: "real \<Rightarrow> real \<Rightarrow> string option \<Rightarrow> Controls \<Rightarrow> string \<Rightarrow> Drone
    \<Rightarrow> DronePhysics \<Rightarrow> DronePhysics \<times> effect list" where
  "manual_control mult dt selectedDroneId activeControls droneId drone physics =
     (if armed physics \<and> selectedDroneId = Some droneId then
        (let MOVE_SPEED = (18 / 100000) * dt * mult;
             ALT_SPEED = 20 * dt * mult;
             YAW_SPEED = 75 * dt * mult;
             (p1, e1) = mode_override activeControls physics;
             p2 = throttle_yaw ALT_SPEED YAW_SPEED activeControls p1;
             p3 = pitch_roll MOVE_SPEED activeControls p2
         in if movedManually activeControls then
              (p3\<lparr>speed := 45\<rparr>,
               e1 @ [UpdateDroneTelemetry (drone_id drone) (manual_telemetry p3)])
            else (p3, e1))
      else (physics, []))"

section \<open>The tick: one vehicle, then the fleet\<close>

definition tick_dt :: "int \<Rightarrow> DronePhysics \<Rightarrow> real" where
  \<comment> \<open>\<open>Math.min((now - physics.lastTick) / 1000, 0.1)\<close>\<close>
  "tick_dt now physics = min (real_of_int (now - lastTick physics) / 1000) (1 / 10)"

definition tick_drone :: "int \<Rightarrow> string option \<Rightarrow> Controls \<Rightarrow> string \<Rightarrow> Drone \<Rightarrow> MissionItem list
    \<Rightarrow> DronePhysics \<Rightarrow> DronePhysics \<times> effect list" where
  \<comment> \<open>The body of \<open>drones.forEach\<close> for a drone that has physics and an assigned route.\<close>
  "tick_drone now selectedDroneId activeControls droneId drone route physics =
     (let dt = tick_dt now physics;
          p0 = physics\<lparr>lastTick := now\<rparr>;
          (p1, tgt, e1) = state_machine dt droneId drone route p0;
          p2 = movement SIM_SPEED_MULT dt tgt p1;
          e3 = [UpdateDroneTelemetry droneId (basic_telemetry p2)];
          (p4, e4) = manual_control SIM_SPEED_MULT dt selectedDroneId activeControls droneId drone p2
      in (p4, e1 @ e3 @ e4))"

record Fleet =
  drones :: DroneMap
  dronePhysics :: "string \<rightharpoonup> DronePhysics"

fun tick_forEach :: "int \<Rightarrow> string option \<Rightarrow> Controls \<Rightarrow> DroneMap \<Rightarrow> (string \<rightharpoonup> DronePhysics)
    \<Rightarrow> (string \<rightharpoonup> DronePhysics) \<times> effect list" where
  "tick_forEach now selectedDroneId activeControls [] phys = (phys, [])"
| "tick_forEach now selectedDroneId activeControls ((droneId, drone) # rest) phys =
     (case phys droneId of
        None \<Rightarrow> tick_forEach now selectedDroneId activeControls rest phys
      | Some physics \<Rightarrow>
          (case assignedRoute drone of
             None \<Rightarrow> tick_forEach now selectedDroneId activeControls rest phys
           | Some route \<Rightarrow>
               (let (physics', es) =
                      tick_drone now selectedDroneId activeControls droneId drone route physics;
                    (phys', es') = tick_forEach now selectedDroneId activeControls rest
                                     (phys(droneId \<mapsto> physics'))
                in (phys', es @ es'))))"

fun apply_effect :: "effect \<Rightarrow> DroneMap \<Rightarrow> DroneMap" where
  "apply_effect (UpdateDroneStatus droneId st) ds = updateDroneStatus droneId st ds"
| "apply_effect (CompleteDroneTask droneId) ds = completeDroneTask droneId ds"
| "apply_effect (UpdateDroneTelemetry droneId pt) ds = updateDroneTelemetry droneId pt ds"
| "apply_effect (UpdateRequestStatus taskId st) ds = ds"
| "apply_effect (AddLog text severity) ds = ds"

definition tick :: "int \<Rightarrow> string option \<Rightarrow> Controls \<Rightarrow> Fleet \<Rightarrow> Fleet \<times> effect list" where
  \<comment> \<open>One frame: every drone is stepped against the drone map the frame started with; the
      queued context updates are then applied in the order they were issued.\<close>
  "tick now selectedDroneId activeControls fleet =
     (let (phys', es) = tick_forEach now selectedDroneId activeControls
                          (drones fleet) (dronePhysics fleet)
      in (\<lparr>drones = fold apply_effect es (drones fleet), dronePhysics = phys'\<rparr>, es))"

section \<open>Pilot actions on the selected drone\<close>

datatype rejection = NO_DRONE_SELECTED | AUTO_FAIL_NO_MISSION | AUTO_FAIL_ARM_FIRST
  | DISARM_REJECTED_VEHICLE_AIRBORNE

definition getSelectedDrone :: "string option \<Rightarrow> Fleet \<Rightarrow> Drone option" where
  "getSelectedDrone selectedDroneId fleet =
     (case selectedDroneId of None \<Rightarrow> None | Some i \<Rightarrow> map_of (drones fleet) i)"

definition getSelectedPhysics :: "string option \<Rightarrow> Fleet \<Rightarrow> DronePhysics option" where
  "getSelectedPhysics selectedDroneId fleet =
     (case selectedDroneId of None \<Rightarrow> None | Some i \<Rightarrow> dronePhysics fleet i)"

definition store_selected :: "string option \<Rightarrow> DronePhysics \<Rightarrow> Fleet \<Rightarrow> Fleet" where
  \<comment> \<open>The physics object is mutated in place: the map holds the new value.\<close>
  "store_selected selectedDroneId physics fleet =
     (case selectedDroneId of
        None \<Rightarrow> fleet
      | Some i \<Rightarrow> fleet\<lparr>dronePhysics := (dronePhysics fleet)(i \<mapsto> physics)\<rparr>)"

definition setMode_physics :: "FlightMode \<Rightarrow> Drone \<Rightarrow> DronePhysics \<Rightarrow> rejection + DronePhysics" where
  "setMode_physics mode drone physics =
     (if mode = AUTO \<and> (case assignedRoute drone of None \<Rightarrow> True | Some r \<Rightarrow> length r = 0)
      then Inl AUTO_FAIL_NO_MISSION
      else if mode = AUTO \<and> \<not> armed physics then Inl AUTO_FAIL_ARM_FIRST
      else
        (let p1 = physics\<lparr>flightMode := mode\<rparr>
         in Inr (if flightMode p1 \<noteq> RTL
                 then p1\<lparr>isReturningHome := False, deliveryWaitTime := 0\<rparr> else p1)))"

definition setMode :: "FlightMode \<Rightarrow> string option \<Rightarrow> Fleet \<Rightarrow> rejection + Fleet" where
  "setMode mode selectedDroneId fleet =
     (case (getSelectedDrone selectedDroneId fleet, getSelectedPhysics selectedDroneId fleet) of
        (Some drone, Some physics) \<Rightarrow>
          (case setMode_physics mode drone physics of
             Inl r \<Rightarrow> Inl r
           | Inr physics' \<Rightarrow> Inr (store_selected selectedDroneId physics' fleet))
      | _ \<Rightarrow> Inl NO_DRONE_SELECTED)"

definition disarmSystem :: "string option \<Rightarrow> Fleet \<Rightarrow> rejection + Fleet" where
  "disarmSystem selectedDroneId fleet =
     (case (getSelectedDrone selectedDroneId fleet, getSelectedPhysics selectedDroneId fleet) of
        (Some drone, Some physics) \<Rightarrow>
          (if 2 < alt physics then Inl DISARM_REJECTED_VEHICLE_AIRBORNE
           else Inr (store_selected selectedDroneId
                       (physics\<lparr>armed := False, flightMode := STABILIZE\<rparr>) fleet))
      | _ \<Rightarrow> Inl NO_DRONE_SELECTED)"

definition handleManualControl :: "string \<Rightarrow> bool \<Rightarrow> string option \<Rightarrow> Controls \<times> Fleet
    \<Rightarrow> Controls \<times> Fleet" where
  "handleManualControl action active selectedDroneId st =
     (let (activeControls, fleet) = st;
          activeControls' = AList.update action active activeControls
      in if active then
           (case getSelectedPhysics selectedDroneId fleet of
              Some physics \<Rightarrow>
                (if flightMode physics = AUTO \<or> flightMode physics = RTL then
                   (activeControls',
                    store_selected selectedDroneId
                      (physics\<lparr>flightMode := GUIDED, isReturningHome := False\<rparr>) fleet)
                 else (activeControls', fleet))
            | None \<Rightarrow> (activeControls', fleet))
         else (activeControls', fleet))"

definition handleKeyDown :: "string \<Rightarrow> Controls \<Rightarrow> Controls" where
  \<comment> \<open>A mapped key (\<open>action\<close> is \<open>keyMap[e.key]\<close>) only marks the axis active.\<close>
  "handleKeyDown action activeControls = AList.update action True activeControls"

definition handleKeyUp :: "string \<Rightarrow> Controls \<Rightarrow> Controls" where
  "handleKeyUp action activeControls = AList.update action False activeControls"

section \<open>Dispatch (components/DispatchDashboard.tsx) and initial physics\<close>

definition generateRouteForTask :: "Location \<Rightarrow> Location \<Rightarrow> MissionItem list" where
  "generateRouteForTask start dest =
     [\<lparr>seq = 1, command = NAV_TAKEOFF, wp_p1 = None,
       wp_lat = loc_lat start, wp_lng = loc_lng start, wp_alt = 100\<rparr>,
      \<lparr>seq = 2, command = NAV_WAYPOINT, wp_p1 = None,
       wp_lat = (loc_lat start + loc_lat dest) / 2, wp_lng = (loc_lng start + loc_lng dest) / 2,
       wp_alt = 100\<rparr>,
      \<lparr>seq = 3, command = NAV_WAYPOINT, wp_p1 = None,
       wp_lat = loc_lat dest, wp_lng = loc_lng dest, wp_alt = 100\<rparr>,
      \<lparr>seq = 4, command = NAV_LOITER_TIME, wp_p1 = Some 5,
       wp_lat = loc_lat dest, wp_lng = loc_lng dest, wp_alt = 100\<rparr>,
      \<lparr>seq = 5, command = NAV_LAND, wp_p1 = None,
       wp_lat = loc_lat dest, wp_lng = loc_lng dest, wp_alt = 0\<rparr>]"

datatype dispatch_error = NO_DRONES_AVAILABLE

definition handleDispatch :: "Location \<Rightarrow> MedicineRequest \<Rightarrow> DroneMap \<Rightarrow> dispatch_error + DroneMap" where
  \<comment> \<open>The caller of \<open>assignTaskToDrone\<close>: it picks the first idle drone, or gives up.\<close>
  "handleDispatch hubLocation request ds =
     (case getAvailableDrone ds of
        None \<Rightarrow> Inl NO_DRONES_AVAILABLE
      | Some availableDrone \<Rightarrow>
          Inr (assignTaskToDrone (drone_id availableDrone) request
                 (generateRouteForTask hubLocation (req_location request)) ds))"

definition initial_physics :: "int \<Rightarrow> Drone \<Rightarrow> DronePhysics" where
  \<comment> \<open>The physics record created for a drone that has none; \<open>now\<close> is \<open>Date.now()\<close>.\<close>
  "initial_physics now drone =
     \<lparr>lat = loc_lat (drone_homeLocation drone), lng = loc_lng (drone_homeLocation drone),
      alt = 0, heading = 0, speed = 0, vSpeed = 0, roll = 0, pitch = 0,
      battery_v = 252 / 10, battery_rem = 100, wind_dir = 45, wind_spd = 5,
      lastTick = now, armed = False, flightMode = STABILIZE, activeWpIndex = - 1,
      homeLocation = drone_homeLocation drone, deliveryWaitTime = 0,
      isReturningHome = False\<rparr>"

section \<open>Predicates and auxiliary functions of the statements\<close>

text \<open>The data-model invariant: an idle drone has neither a route nor a task.\<close>

definition idle_inv :: "Drone \<Rightarrow> bool" where
  "idle_inv d = (status d = idle \<longrightarrow> assignedRoute d = None \<and> assignedTaskId d = None)"

definition fleet_idle_inv :: "DroneMap \<Rightarrow> bool" where
  "fleet_idle_inv ds = list_all (\<lambda>(k, d). idle_inv d) ds"

fun keeps_idle_inv :: "effect \<Rightarrow> bool" where
  "keeps_idle_inv (UpdateDroneStatus i st) = (st \<noteq> idle)"
| "keeps_idle_inv _ = True"

text \<open>What a queued context update does to the entry of drone \<open>i\<close>.\<close>

fun apply_effect_drone :: "string \<Rightarrow> effect \<Rightarrow> Drone \<Rightarrow> Drone" where
  "apply_effect_drone i (UpdateDroneStatus j st) d = (if j = i then d\<lparr>status := st\<rparr> else d)"
| "apply_effect_drone i (CompleteDroneTask j) d =
     (if j = i then d\<lparr>status := idle, assignedTaskId := None, assignedRoute := None,
                      currentLocation := drone_homeLocation d\<rparr> else d)"
| "apply_effect_drone i (UpdateDroneTelemetry j pt) d =
     (if j = i then d\<lparr>telemetry := merge_telemetry (telemetry d) pt\<rparr> else d)"
| "apply_effect_drone i (UpdateRequestStatus taskId st) d = d"
| "apply_effect_drone i (AddLog text severity) d = d"

text \<open>One frame seen from a single vehicle: its record and its physics.\<close>

definition vehicle_step :: "int \<Rightarrow> string option \<Rightarrow> Controls \<Rightarrow> string \<Rightarrow> Drone \<times> DronePhysics
    \<Rightarrow> (Drone \<times> DronePhysics) \<times> effect list" where
  "vehicle_step now sel cs i v =
     (case assignedRoute (fst v) of
        None \<Rightarrow> (v, [])
      | Some route \<Rightarrow>
          (let (physics', es) = tick_drone now sel cs i (fst v) route (snd v)
           in ((fold (apply_effect_drone i) es (fst v), physics'), es)))"

text \<open>A drone map as the context builds it: unique keys, each drone stored under its id.\<close>

definition well_keyed :: "DroneMap \<Rightarrow> bool" where
  "well_keyed ds = (distinct (map fst ds) \<and> list_all (\<lambda>(k, d). drone_id d = k) ds)"

fun aimed_at :: "string \<Rightarrow> effect \<Rightarrow> bool" where
  "aimed_at j (UpdateDroneStatus k st) = (k = j)"
| "aimed_at j (CompleteDroneTask k) = (k = j)"
| "aimed_at j (UpdateDroneTelemetry k pt) = (k = j)"
| "aimed_at j (UpdateRequestStatus taskId st) = True"
| "aimed_at j (AddLog text severity) = True"

text \<open>Effects that only report: telemetry and log lines.\<close>

fun is_report :: "effect \<Rightarrow> bool" where
  "is_report (UpdateDroneTelemetry j pt) = True"
| "is_report (AddLog text severity) = True"
| "is_report _ = False"

text \<open>A sequence of frames, each with its timestamp, selection and control state.\<close>

fun run_ticks :: "(int \<times> string option \<times> Controls) list \<Rightarrow> Fleet \<Rightarrow> Fleet" where
  "run_ticks [] fleet = fleet"
| "run_ticks ((now, sel, cs) # rest) fleet = run_ticks rest (fst (tick now sel cs fleet))"

text \<open>The modes in which the state machine starts no automatic flight.\<close>

definition manual_modes :: "FlightMode set" where
  "manual_modes = {STABILIZE, LOITER, GUIDED, LAND}"

section \<open>Example data\<close>

definition PHC_Village_A :: Location where
  "PHC_Village_A = \<lparr>loc_lat = 185304 / 10000, loc_lng = 738767 / 10000,
     address = Some ''North Valley PHC''\<rparr>"

definition request_A :: MedicineRequest where
  "request_A = \<lparr>req_id = ''REQ-1'', hospitalId = ''PHC-Village-A'',
     hospitalName = ''North Valley PHC'', req_location = PHC_Village_A, req_origin = None,
     medicines = [''Insulin''], priority = Emergency, req_status = ms_pending,
     req_timestamp = 0, req_droneId = None\<rparr>"

definition route_A :: "MissionItem list" where
  "route_A = generateRouteForTask CENTRAL_HOSPITAL_LOCATION PHC_Village_A"

definition drone1 :: Drone where
  "drone1 = initial_drone ''DRONE-1'' ''Drone 1'' ''#10b981''"

definition drone1_flying :: Drone where
  \<comment> \<open>Drone 1 on its mission to village A.\<close>
  "drone1_flying = drone1\<lparr>status := running, assignedTaskId := Some ''REQ-1'',
     assignedRoute := Some route_A\<rparr>"


definition PHC_Village_B :: Location where
  "PHC_Village_B = \<lparr>loc_lat = 185100 / 10000, loc_lng = 738300 / 10000,
     address = Some ''South Hill Clinic''\<rparr>"

definition request_B :: MedicineRequest where
  "request_B = \<lparr>req_id = ''REQ-2'', hospitalId = ''PHC-Village-B'',
     hospitalName = ''South Hill Clinic'', req_location = PHC_Village_B, req_origin = None,
     medicines = [''Antivenom''], priority = Normal, req_status = ms_pending,
     req_timestamp = 0, req_droneId = None\<rparr>"

definition route_B :: "MissionItem list" where
  "route_B = generateRouteForTask CENTRAL_HOSPITAL_LOCATION PHC_Village_B"

definition drone2 :: Drone where
  "drone2 = initial_drone ''DRONE-2'' ''Drone 2'' ''#3b82f6''"

definition drones_A :: DroneMap where
  \<comment> \<open>Drone 1 flying its mission, drone 2 idle at the hub.\<close>
  "drones_A = [(''DRONE-1'', drone1_flying), (''DRONE-2'', drone2)]"

definition physics_home_landing :: DronePhysics where
  \<comment> \<open>Drone 1 back over the hub after its delivery, 20 cm above the ground in \<open>LAND\<close>.\<close>
  "physics_home_landing = (initial_physics 0 drone1)\<lparr>alt := 2 / 10, armed := True,
     flightMode := LAND, activeWpIndex := 4, deliveryWaitTime := 31 / 10,
     isReturningHome := True\<rparr>"

definition fleet_home_landing :: Fleet where
  "fleet_home_landing = \<lparr>drones = drones_A,
     dronePhysics = [''DRONE-1'' \<mapsto> physics_home_landing, ''DRONE-2'' \<mapsto> initial_physics 0 drone2]\<rparr>"

definition route_short :: "MissionItem list" where
  \<comment> \<open>A replacement route of three waypoints.\<close>
  "route_short = take 3 route_A"

definition physics_enroute :: DronePhysics where
  \<comment> \<open>Drone 1 over village A at 100 m, heading for waypoint 4 of its five-waypoint route.\<close>
  "physics_enroute = (initial_physics 0 drone1)\<lparr>lat := loc_lat PHC_Village_A,
     lng := loc_lng PHC_Village_A, alt := 100, armed := True, flightMode := AUTO,
     activeWpIndex := 4\<rparr>"

definition fleet_rerouted :: Fleet where
  \<comment> \<open>The route of drone 1 has just been replaced by the shorter one.\<close>
  "fleet_rerouted = \<lparr>drones = updateDroneRoute ''DRONE-1'' route_short drones_A,
     dronePhysics = [''DRONE-1'' \<mapsto> physics_enroute, ''DRONE-2'' \<mapsto> initial_physics 0 drone2]\<rparr>"


definition physics_rtl_home :: DronePhysics where
  \<comment> \<open>Drone 1 arriving over the hub at 50 m in \<open>RTL\<close>, after its delivery.\<close>
  "physics_rtl_home = (initial_physics 0 drone1)\<lparr>alt := 50, armed := True,
     flightMode := RTL, activeWpIndex := 4, deliveryWaitTime := 31 / 10,
     isReturningHome := True\<rparr>"

definition fleet_rtl_home :: Fleet where
  "fleet_rtl_home = \<lparr>drones = drones_A,
     dronePhysics = [''DRONE-1'' \<mapsto> physics_rtl_home, ''DRONE-2'' \<mapsto> initial_physics 0 drone2]\<rparr>"


definition physics_flat_battery :: DronePhysics where
  \<comment> \<open>Drone 1 armed on the pad with its battery at 0 percent.\<close>
  "physics_flat_battery = (initial_physics 0 drone1)\<lparr>armed := True, battery_rem := 0\<rparr>"

definition fleet_flat_battery :: Fleet where
  "fleet_flat_battery = \<lparr>drones = drones_A,
     dronePhysics = [''DRONE-1'' \<mapsto> physics_flat_battery,
                     ''DRONE-2'' \<mapsto> initial_physics 0 drone2]\<rparr>"

definition physics_waiting :: DronePhysics where
  \<comment> \<open>Drone 1 on the ground at the \<open>NAV_LAND\<close> waypoint of village A, 1.5 s into the
      delivery wait.\<close>
  "physics_waiting = (initial_physics 0 drone1)\<lparr>lat := loc_lat PHC_Village_A,
     lng := loc_lng PHC_Village_A, armed := True, flightMode := AUTO, activeWpIndex := 4,
     deliveryWaitTime := 15 / 10\<rparr>"

definition fleet_waiting :: Fleet where
  "fleet_waiting = \<lparr>drones = drones_A,
     dronePhysics = [''DRONE-1'' \<mapsto> physics_waiting, ''DRONE-2'' \<mapsto> initial_physics 0 drone2]\<rparr>"

definition fleet_resumed :: Fleet where
  \<comment> \<open>The waiting fleet after the pilot has pressed \<open>AUTO\<close> for drone 1.\<close>
  "fleet_resumed = fleet_waiting\<lparr>dronePhysics := (dronePhysics fleet_waiting)
     (''DRONE-1'' \<mapsto> physics_waiting\<lparr>flightMode := AUTO, isReturningHome := False,
                                        deliveryWaitTime := 0\<rparr>)\<rparr>"

definition fleet_loitering :: Fleet where
  \<comment> \<open>The waiting fleet after the pilot has pressed \<open>LOITER\<close> for drone 1.\<close>
  "fleet_loitering = fleet_waiting\<lparr>dronePhysics := (dronePhysics fleet_waiting)
     (''DRONE-1'' \<mapsto> physics_waiting\<lparr>flightMode := LOITER, isReturningHome := False,
                                        deliveryWaitTime := 0\<rparr>)\<rparr>"

definition physics_takeoff :: DronePhysics where
  \<comment> \<open>Drone 1 armed in \<open>AUTO\<close> on the pad, about to climb to its first waypoint.\<close>
  "physics_takeoff = (initial_physics 0 drone1)\<lparr>armed := True, flightMode := AUTO,
     activeWpIndex := 0\<rparr>"

definition target_A :: Target where
  \<comment> \<open>The third waypoint of the route to village A, at 100 m.\<close>
  "target_A = \<lparr>targetLat = loc_lat PHC_Village_A, targetLng = loc_lng PHC_Village_A,
     targetAlt = 100\<rparr>"

definition physics_touchdown :: DronePhysics where
  \<comment> \<open>Drone 1 has just touched down at the \<open>NAV_LAND\<close> waypoint of village A.\<close>
  "physics_touchdown = (initial_physics 0 drone1)\<lparr>lat := loc_lat PHC_Village_A,
     lng := loc_lng PHC_Village_A, armed := True, flightMode := AUTO, activeWpIndex := 4\<rparr>"

definition fleet_touchdown :: Fleet where
  "fleet_touchdown = \<lparr>drones = drones_A,
     dronePhysics = [''DRONE-1'' \<mapsto> physics_touchdown, ''DRONE-2'' \<mapsto> initial_physics 0 drone2]\<rparr>"

section \<open>Drone map lemmas\<close>

lemma map_of_update_present:
  "map_of (AList.update i v ds) k = (if k = i then Some v else map_of ds k)"
  by (simp add: update_conv')

lemma map_of_apply_effect:
  "map_of (apply_effect e ds) i = map_option (apply_effect_drone i e) (map_of ds i)"
  by (cases e; cases "map_of ds i")
     (auto simp: updateDroneStatus_def completeDroneTask_def updateDroneTelemetry_def
        map_of_update_present split: option.splits)

lemma map_of_fold_apply_effect:
  "map_of (fold apply_effect es ds) i = map_option (fold (apply_effect_drone i) es) (map_of ds i)"
  by (induction es arbitrary: ds) (auto simp: map_of_apply_effect option.map_comp comp_def option.map_id0)

lemma keys_apply_effect: "map fst (apply_effect e ds) = map fst ds"
  by (cases e)
     (auto simp: updateDroneStatus_def completeDroneTask_def updateDroneTelemetry_def
        update_keys map_of_eq_None_iff[symmetric] split: option.splits)

lemma keys_fold_apply_effect: "map fst (fold apply_effect es ds) = map fst ds"
  by (induction es arbitrary: ds) (auto simp: keys_apply_effect)

lemma keys_update_present: "map_of al k = Some v \<Longrightarrow> map fst (AList.update k w al) = map fst al"
  by (simp add: update_keys map_of_eq_None_iff[symmetric] domIff)

section \<open>The tick acts on each vehicle separately\<close>

lemma foreign_effect: "aimed_at j e \<Longrightarrow> i \<noteq> j \<Longrightarrow> apply_effect_drone i e d = d"
  by (cases e) auto

lemma foreign_effects: "list_all (aimed_at j) es \<Longrightarrow> i \<noteq> j \<Longrightarrow> fold (apply_effect_drone i) es d = d"
  by (induction es) (auto simp: foreign_effect)

lemma state_machine_aimed:
  "state_machine dt j drone route p = (p', tgt, es) \<Longrightarrow> list_all (aimed_at j) es"
  by (auto simp: state_machine_def auto_branch_def waypoint_reached_def delivery_landing_def
      rtl_branch_def land_branch_def Let_def split: if_splits option.splits prod.splits)

lemma manual_control_aimed:
  "manual_control m dt sel cs j drone p = (p', es) \<Longrightarrow> drone_id drone = j \<Longrightarrow> list_all (aimed_at j) es"
  by (auto simp: manual_control_def mode_override_def Let_def split: if_splits prod.splits)

lemma tick_drone_aimed:
  "tick_drone now sel cs j drone route p = (p', es) \<Longrightarrow> drone_id drone = j \<Longrightarrow> list_all (aimed_at j) es"
  by (auto simp: tick_drone_def Let_def split: prod.splits
      dest: state_machine_aimed manual_control_aimed)

lemma tick_forEach_absent:
  "tick_forEach now sel cs ds phys = (phys', es) \<Longrightarrow> i \<notin> fst ` set ds \<Longrightarrow>
     list_all (\<lambda>(k, d). drone_id d = k) ds \<Longrightarrow>
     phys' i = phys i \<and> fold (apply_effect_drone i) es d = d"
proof (induction ds arbitrary: phys phys' es)
  case Nil then show ?case by simp
next
  case (Cons a ds)
  obtain j dj where a: "a = (j, dj)" by (cases a)
  have ij: "i \<noteq> j" and idj: "drone_id dj = j" using Cons.prems a by auto
  show ?case
  proof (cases "phys j")
    case None then show ?thesis using Cons a by auto
  next
    case (Some p)
    show ?thesis
    proof (cases "assignedRoute dj")
      case None then show ?thesis using Cons a Some by auto
    next
      case (Some r)
      obtain pj esj where t: "tick_drone now sel cs j dj r p = (pj, esj)" by force
      obtain ph2 es2 where r: "tick_forEach now sel cs ds (phys(j \<mapsto> pj)) = (ph2, es2)" by force
      have e: "phys' = ph2" "es = esj @ es2"
        using Cons.prems(1) a \<open>phys j = Some p\<close> Some t r by auto
      have ih: "ph2 i = (phys(j \<mapsto> pj)) i \<and> fold (apply_effect_drone i) es2 d = d"
        using Cons.IH[OF r] Cons.prems a by auto
      show ?thesis using ih e ij foreign_effects[OF tick_drone_aimed[OF t idj], of i d]
        by simp
    qed
  qed
qed

theorem tick_forEach_local:
  assumes "tick_forEach now sel cs ds phys = (phys', es)"
    and "well_keyed ds" and "map_of ds i = Some d"
  shows "(case phys i of
            None \<Rightarrow> phys' i = None \<and> fold (apply_effect_drone i) es d = d
          | Some p \<Rightarrow> phys' i = Some (snd (fst (vehicle_step now sel cs i (d, p))))
                     \<and> fold (apply_effect_drone i) es d = fst (fst (vehicle_step now sel cs i (d, p))))"
  using assms
proof (induction ds arbitrary: phys phys' es)
  case Nil then show ?case by simp
next
  case (Cons a ds)
  obtain j dj where a: "a = (j, dj)" by (cases a)
  have wk: "well_keyed ds" and jn: "j \<notin> fst ` set ds" and idj: "drone_id dj = j"
    and ids: "list_all (\<lambda>(k, d). drone_id d = k) ds"
    using Cons.prems(2) a by (auto simp: well_keyed_def)
  show ?case
  proof (cases "i = j")
    case True
    then have d: "dj = d" using Cons.prems(3) a by simp
    show ?thesis
    proof (cases "phys j")
      case None
      then show ?thesis
        using Cons.prems(1) a True tick_forEach_absent[OF _ jn ids, of now sel cs phys phys' es d]
        by auto
    next
      case (Some p)
      show ?thesis
      proof (cases "assignedRoute d")
        case None
        then show ?thesis
          using Cons.prems(1) a True d Some
            tick_forEach_absent[OF _ jn ids, of now sel cs phys phys' es d]
          by (auto simp: vehicle_step_def)
      next
        case (Some r)
        obtain pj esj where t: "tick_drone now sel cs j d r p = (pj, esj)" by force
        obtain ph2 es2 where r: "tick_forEach now sel cs ds (phys(j \<mapsto> pj)) = (ph2, es2)" by force
        have e: "phys' = ph2" "es = esj @ es2"
          using Cons.prems(1) a d \<open>phys j = Some p\<close> Some t r by auto
        have ab: "ph2 j = Some pj \<and> fold (apply_effect_drone j) es2 (fold (apply_effect_drone j) esj d)
                     = fold (apply_effect_drone j) esj d"
          using tick_forEach_absent[OF r jn ids] by simp
        show ?thesis using ab e True \<open>phys j = Some p\<close> Some t
          by (simp add: vehicle_step_def)
      qed
    qed
  next
    case False
    then have m: "map_of ds i = Some d" using Cons.prems(3) a by simp
    show ?thesis
    proof (cases "phys j")
      case None
      then show ?thesis using Cons.IH[OF _ wk m] Cons.prems(1) a by auto
    next
      case (Some p)
      show ?thesis
      proof (cases "assignedRoute dj")
        case None
        then show ?thesis using Cons.IH[OF _ wk m] Cons.prems(1) a Some by auto
      next
        case (Some r)
        obtain pj esj where t: "tick_drone now sel cs j dj r p = (pj, esj)" by force
        obtain ph2 es2 where r: "tick_forEach now sel cs ds (phys(j \<mapsto> pj)) = (ph2, es2)" by force
        have e: "phys' = ph2" "es = esj @ es2"
          using Cons.prems(1) a \<open>phys j = Some p\<close> Some t r by auto
        have f: "fold (apply_effect_drone i) esj d = d"
          using foreign_effects[OF tick_drone_aimed[OF t idj] False] .
        show ?thesis using Cons.IH[OF r wk m] e f False by (simp split: option.splits)
      qed
    qed
  qed
qed


lemma well_keyed_lookup: "well_keyed ds \<Longrightarrow> map_of ds i = Some d \<Longrightarrow> drone_id d = i"
  by (auto simp: well_keyed_def list_all_iff dest: map_of_SomeD)

theorem tick_local:
  assumes "well_keyed (drones fleet)" and "map_of (drones fleet) i = Some d"
    and "dronePhysics fleet i = Some p"
  shows "map_of (drones (fst (tick now sel cs fleet))) i
           = Some (fst (fst (vehicle_step now sel cs i (d, p))))
       \<and> dronePhysics (fst (tick now sel cs fleet)) i
           = Some (snd (fst (vehicle_step now sel cs i (d, p))))"
proof -
  obtain phys' es where t: "tick_forEach now sel cs (drones fleet) (dronePhysics fleet) = (phys', es)"
    by force
  show ?thesis
    using tick_forEach_local[OF t assms(1,2)] assms(2,3)
    by (simp add: tick_def t map_of_fold_apply_effect)
qed

lemma movement_control [simp]:
  "armed (movement m dt tgt p) = armed p"
  "flightMode (movement m dt tgt p) = flightMode p"
  "activeWpIndex (movement m dt tgt p) = activeWpIndex p"
  "deliveryWaitTime (movement m dt tgt p) = deliveryWaitTime p"
  "isReturningHome (movement m dt tgt p) = isReturningHome p"
  "battery_rem (movement m dt tgt p) = battery_rem p"
  "lastTick (movement m dt tgt p) = lastTick p"
  "homeLocation (movement m dt tgt p) = homeLocation p"
  by (simp_all add: movement_def horizontal_def translate_def turn_def vertical_def Let_def
      split: prod.splits)

lemma movement_disarmed [simp]: "\<not> armed p \<Longrightarrow> movement m dt tgt p = p"
  by (simp add: movement_def)

lemma manual_control_disarmed [simp]: "\<not> armed p \<Longrightarrow> manual_control m dt sel cs i d p = (p, [])"
  by (simp add: manual_control_def)

lemma drain_battery_control [simp]:
  "armed (drain_battery dt p) = armed p"
  "flightMode (drain_battery dt p) = flightMode p"
  "activeWpIndex (drain_battery dt p) = activeWpIndex p"
  "deliveryWaitTime (drain_battery dt p) = deliveryWaitTime p"
  "isReturningHome (drain_battery dt p) = isReturningHome p"
  "lastTick (drain_battery dt p) = lastTick p"
  "homeLocation (drain_battery dt p) = homeLocation p"
  "alt (drain_battery dt p) = alt p"
  "lat (drain_battery dt p) = lat p"
  "lng (drain_battery dt p) = lng p"
  by (simp_all add: drain_battery_def Let_def)

lemma throttle_yaw_control [simp]:
  "armed (throttle_yaw a y cs p) = armed p"
  "flightMode (throttle_yaw a y cs p) = flightMode p"
  "activeWpIndex (throttle_yaw a y cs p) = activeWpIndex p"
  "deliveryWaitTime (throttle_yaw a y cs p) = deliveryWaitTime p"
  "isReturningHome (throttle_yaw a y cs p) = isReturningHome p"
  "battery_rem (throttle_yaw a y cs p) = battery_rem p"
  "lastTick (throttle_yaw a y cs p) = lastTick p"
  by (simp_all add: throttle_yaw_def Let_def)

lemma pitch_roll_control [simp]:
  "armed (pitch_roll mv cs p) = armed p"
  "flightMode (pitch_roll mv cs p) = flightMode p"
  "activeWpIndex (pitch_roll mv cs p) = activeWpIndex p"
  "deliveryWaitTime (pitch_roll mv cs p) = deliveryWaitTime p"
  "isReturningHome (pitch_roll mv cs p) = isReturningHome p"
  "battery_rem (pitch_roll mv cs p) = battery_rem p"
  "lastTick (pitch_roll mv cs p) = lastTick p"
  by (simp_all add: pitch_roll_def Let_def split: prod.splits)

lemma mode_override_control [simp]:
  "armed (fst (mode_override cs p)) = armed p"
  "activeWpIndex (fst (mode_override cs p)) = activeWpIndex p"
  "deliveryWaitTime (fst (mode_override cs p)) = deliveryWaitTime p"
  "battery_rem (fst (mode_override cs p)) = battery_rem p"
  "lastTick (fst (mode_override cs p)) = lastTick p"
  by (simp_all add: mode_override_def)

lemma manual_control_control [simp]:
  "armed (fst (manual_control m dt sel cs i d p)) = armed p"
  "activeWpIndex (fst (manual_control m dt sel cs i d p)) = activeWpIndex p"
  "deliveryWaitTime (fst (manual_control m dt sel cs i d p)) = deliveryWaitTime p"
  "battery_rem (fst (manual_control m dt sel cs i d p)) = battery_rem p"
  "lastTick (fst (manual_control m dt sel cs i d p)) = lastTick p"
  by (simp_all add: manual_control_def Let_def split: prod.splits)
     (metis fst_conv mode_override_control)+

lemma manual_control_mode:
  "flightMode (fst (manual_control m dt sel cs i d p))
     = (if armed p \<and> sel = Some i then flightMode (fst (mode_override cs p)) else flightMode p)"
  "isReturningHome (fst (manual_control m dt sel cs i d p))
     = (if armed p \<and> sel = Some i then isReturningHome (fst (mode_override cs p))
        else isReturningHome p)"
  by (auto simp: manual_control_def Let_def split: prod.splits)


lemma tick_drone_unfold:
  "tick_drone now sel cs i d r p =
     (case state_machine (tick_dt now p) i d r (p\<lparr>lastTick := now\<rparr>) of
        (p1, tgt, e1) \<Rightarrow>
          (let p2 = movement SIM_SPEED_MULT (tick_dt now p) tgt p1;
               mc = manual_control SIM_SPEED_MULT (tick_dt now p) sel cs i d p2
           in (fst mc, e1 @ [UpdateDroneTelemetry i (basic_telemetry p2)] @ snd mc)))"
  by (simp add: tick_drone_def Let_def split: prod.splits)

lemma manual_control_reports: "list_all is_report (snd (manual_control m dt sel cs i d p))"
  by (simp add: manual_control_def mode_override_def Let_def split: prod.splits)

lemma report_keeps_mission:
  "is_report e \<Longrightarrow> status (apply_effect_drone i e d) = status d
     \<and> assignedRoute (apply_effect_drone i e d) = assignedRoute d
     \<and> assignedTaskId (apply_effect_drone i e d) = assignedTaskId d"
  by (cases e) auto

lemma reports_keep_mission:
  "list_all is_report es \<Longrightarrow> status (fold (apply_effect_drone i) es d) = status d
     \<and> assignedRoute (fold (apply_effect_drone i) es d) = assignedRoute d
     \<and> assignedTaskId (fold (apply_effect_drone i) es d) = assignedTaskId d"
  by (induction es arbitrary: d) (auto simp: report_keeps_mission)

section \<open>Geodesy: the distance of a point from itself\<close>

lemma atan2_zero_pos [simp]: "0 < x \<Longrightarrow> atan2 0 x = 0"
  by (simp add: atan2_def)

lemma getDist_same [simp]: "getDist la lo la lo = 0"
  by (simp add: getDist_def toRad_def Let_def)

lemma tick_drone_fst:
  "fst (tick_drone now sel cs i d r p) =
     fst (manual_control SIM_SPEED_MULT (tick_dt now p) sel cs i d
            (movement SIM_SPEED_MULT (tick_dt now p)
               (fst (snd (state_machine (tick_dt now p) i d r (p\<lparr>lastTick := now\<rparr>))))
               (fst (state_machine (tick_dt now p) i d r (p\<lparr>lastTick := now\<rparr>)))))"
  by (simp add: tick_drone_def Let_def case_prod_beta)

lemma tick_forEach_physics:
  assumes "tick_forEach now sel cs ds phys = (phys', es)" and "distinct (map fst ds)"
  shows "phys' i =
           (case map_of ds i of
              None \<Rightarrow> phys i
            | Some d \<Rightarrow>
                (case phys i of
                   None \<Rightarrow> None
                 | Some p \<Rightarrow>
                     (case assignedRoute d of
                        None \<Rightarrow> Some p
                      | Some r \<Rightarrow> Some (fst (tick_drone now sel cs i d r p)))))"
  using assms
proof (induction ds arbitrary: phys phys' es)
  case Nil then show ?case by simp
next
  case (Cons a ds)
  obtain j dj where a: "a = (j, dj)" by (cases a)
  have dis: "distinct (map fst ds)" and jn: "map_of ds j = None"
    using Cons.prems(2) a by (auto simp: map_of_eq_None_iff)
  show ?case
  proof (cases "phys j")
    case None
    then show ?thesis using Cons.IH[OF _ dis, of phys phys' es] Cons.prems(1) a jn
      by (auto split: option.splits)
  next
    case (Some p)
    show ?thesis
    proof (cases "assignedRoute dj")
      case None
      then show ?thesis using Cons.IH[OF _ dis, of phys phys' es] Cons.prems(1) a jn Some
        by (auto split: option.splits)
    next
      case (Some r)
      obtain pj esj where t: "tick_drone now sel cs j dj r p = (pj, esj)" by force
      obtain ph2 es2 where r: "tick_forEach now sel cs ds (phys(j \<mapsto> pj)) = (ph2, es2)" by force
      have e: "phys' = ph2"
        using Cons.prems(1) a \<open>phys j = Some p\<close> Some t r by auto
      show ?thesis using Cons.IH[OF r dis] e jn a Some \<open>phys j = Some p\<close> t
        by (auto split: option.splits)
    qed
  qed
qed

lemma tick_keys: "map fst (drones (fst (tick now sel cs fleet))) = map fst (drones fleet)"
  by (simp add: tick_def keys_fold_apply_effect split: prod.splits)

lemma tick_drone_snd:
  "snd (tick_drone now sel cs i d r p) =
     snd (snd (state_machine (tick_dt now p) i d r (p\<lparr>lastTick := now\<rparr>)))
     @ [UpdateDroneTelemetry i (basic_telemetry
          (movement SIM_SPEED_MULT (tick_dt now p)
             (fst (snd (state_machine (tick_dt now p) i d r (p\<lparr>lastTick := now\<rparr>))))
             (fst (state_machine (tick_dt now p) i d r (p\<lparr>lastTick := now\<rparr>)))))]
     @ snd (manual_control SIM_SPEED_MULT (tick_dt now p) sel cs i d
          (movement SIM_SPEED_MULT (tick_dt now p)
             (fst (snd (state_machine (tick_dt now p) i d r (p\<lparr>lastTick := now\<rparr>))))
             (fst (state_machine (tick_dt now p) i d r (p\<lparr>lastTick := now\<rparr>)))))"
  by (simp add: tick_drone_def Let_def case_prod_beta)

lemma tick_forEach_effects_include:
  assumes "distinct (map fst ds)" and "map_of ds i = Some d" and "phys i = Some p"
    and "assignedRoute d = Some r"
  shows "set (snd (tick_drone now sel cs i d r p)) \<subseteq> set (snd (tick_forEach now sel cs ds phys))"
  using assms
proof (induction ds arbitrary: phys)
  case Nil then show ?case by simp
next
  case (Cons a ds)
  obtain j dj where a: "a = (j, dj)" by (cases a)
  have dis: "distinct (map fst ds)" using Cons.prems(1) by simp
  show ?case
  proof (cases "i = j")
    case True
    then have "dj = d" using Cons.prems(2) a by simp
    then show ?thesis using Cons.prems(3,4) a True
      by (auto simp: Let_def case_prod_beta)
  next
    case False
    then have m: "map_of ds i = Some d" using Cons.prems(2) a by simp
    show ?thesis
    proof (cases "phys j")
      case None
      then show ?thesis using Cons.IH[where phys = phys, OF dis m Cons.prems(3,4)] a by simp
    next
      case (Some pj)
      show ?thesis
      proof (cases "assignedRoute dj")
        case None
        then show ?thesis using Cons.IH[where phys = phys, OF dis m Cons.prems(3,4)] a Some by simp
      next
        case (Some rj)
        have ph: "(phys(j \<mapsto> fst (tick_drone now sel cs j dj rj pj))) i = Some p"
          using False Cons.prems(3) by simp
        show ?thesis
          using Cons.IH[where phys = "phys(j \<mapsto> fst (tick_drone now sel cs j dj rj pj))", OF dis m ph Cons.prems(4)] a Some \<open>phys j = Some pj\<close>
          by (auto simp: Let_def case_prod_beta fun_upd_def)
      qed
    qed
  qed
qed

lemma tick_effects_include:
  assumes "distinct (map fst (drones fleet))" and "map_of (drones fleet) i = Some d"
    and "dronePhysics fleet i = Some p" and "assignedRoute d = Some r"
  shows "set (snd (tick_drone now sel cs i d r p)) \<subseteq> set (snd (tick now sel cs fleet))"
  using tick_forEach_effects_include[where phys = "dronePhysics fleet", OF assms, of now sel cs]
  by (simp add: tick_def case_prod_beta)

lemma state_machine_delivery:
  assumes "armed p" "flightMode p = AUTO" "route_at route (activeWpIndex p) = Some wp"
    "command wp = NAV_LAND"
    "getDist (lat p) (lng p) (wp_lat wp) (wp_lng wp) < WP_RADIUS" "\<bar>alt p - wp_alt wp\<bar> < 2"
    "alt p < 1 / 2"
  shows "fst (state_machine dt i d route p) = fst (delivery_landing dt d (drain_battery dt p))
       \<and> snd (snd (state_machine dt i d route p)) = snd (delivery_landing dt d (drain_battery dt p))"
proof -
  have n: "activeWpIndex p \<noteq> - 1" "0 < length route"
    using assms(3) by (auto simp: route_at_def split: if_splits)
  show ?thesis
    using assms n
    by (simp add: state_machine_def auto_branch_def waypoint_reached_def Let_def case_prod_beta)
qed

lemma tick_physics_of:
  assumes "distinct (map fst (drones fleet))" and "map_of (drones fleet) i = Some d"
    and "dronePhysics fleet i = Some p" and "assignedRoute d = Some r"
  shows "dronePhysics (fst (tick now sel cs fleet)) i = Some (fst (tick_drone now sel cs i d r p))"
proof -
  obtain phys' es where t: "tick_forEach now sel cs (drones fleet) (dronePhysics fleet) = (phys', es)"
    by force
  show ?thesis
    using tick_forEach_physics[OF t assms(1), of i] assms(2,3,4) by (simp add: tick_def t)
qed

section \<open>Facts about the example route\<close>

lemma route_A_land: "route_at route_A 4 = Some \<lparr>seq = 5, command = NAV_LAND, wp_p1 = None,
       wp_lat = loc_lat PHC_Village_A, wp_lng = loc_lng PHC_Village_A, wp_alt = 0\<rparr>"
  by (simp add: route_at_def route_A_def generateRouteForTask_def)

section \<open>C1: the terminal reset at the home landing\<close>

lemma tick_drone_land_home:
  assumes "armed p" "flightMode p = LAND" "alt p < 1 / 2" "isReturningHome p"
  shows "\<exists>p' pt. tick_drone now sel cs i d route p
                   = (p', [CompleteDroneTask i, UpdateDroneTelemetry i pt])
           \<and> \<not> armed p' \<and> flightMode p' = STABILIZE \<and> \<not> isReturningHome p'
           \<and> deliveryWaitTime p' = 0 \<and> activeWpIndex p' = - 1"
  using assms
  by (simp add: tick_drone_def state_machine_def land_branch_def Let_def)

text \<open>
  C1. A vehicle of the fleet that has an assigned route and is armed in \<open>LAND\<close> mode with
  \<open>isReturningHome\<close> set, below 0.5 m: the tick disarms it, sets \<open>STABILIZE\<close>, clears
  \<open>isReturningHome\<close>, resets \<open>deliveryWaitTime\<close> to 0 and \<open>activeWpIndex\<close> to -1, and
  the drone's entry in the context becomes idle with no route and no task.
\<close>

theorem C1_terminal_reset:
  assumes "well_keyed (drones fleet)" and "map_of (drones fleet) i = Some d"
    and "assignedRoute d = Some route" and "dronePhysics fleet i = Some p"
    and "armed p" and "flightMode p = LAND" and "alt p < 1 / 2" and "isReturningHome p"
  shows "\<exists>d' p'. map_of (drones (fst (tick now sel cs fleet))) i = Some d'
           \<and> dronePhysics (fst (tick now sel cs fleet)) i = Some p'
           \<and> \<not> armed p' \<and> flightMode p' = STABILIZE \<and> \<not> isReturningHome p'
           \<and> deliveryWaitTime p' = 0 \<and> activeWpIndex p' = - 1
           \<and> status d' = idle \<and> assignedRoute d' = None \<and> assignedTaskId d' = None"
proof -
  obtain p' pt where t: "tick_drone now sel cs i d route p
                   = (p', [CompleteDroneTask i, UpdateDroneTelemetry i pt])"
    and f: "\<not> armed p'" "flightMode p' = STABILIZE" "\<not> isReturningHome p'"
           "deliveryWaitTime p' = 0" "activeWpIndex p' = - 1"
    using tick_drone_land_home[OF assms(5-8), of now sel cs i d route] by blast
  have v: "vehicle_step now sel cs i (d, p) =
     ((d\<lparr>status := idle, assignedTaskId := None, assignedRoute := None,
          currentLocation := drone_homeLocation d,
          telemetry := merge_telemetry (telemetry d) pt\<rparr>, p'),
      [CompleteDroneTask i, UpdateDroneTelemetry i pt])"
    using assms(3) t by (simp add: vehicle_step_def)
  show ?thesis
    using tick_local[OF assms(1,2,4), of now sel cs] f by (simp add: v)
qed

theorem C1_terminal_reset_witness:
  "well_keyed (drones fleet_home_landing)
   \<and> map_of (drones fleet_home_landing) ''DRONE-1'' = Some drone1_flying
   \<and> assignedRoute drone1_flying = Some route_A
   \<and> dronePhysics fleet_home_landing ''DRONE-1'' = Some physics_home_landing
   \<and> armed physics_home_landing \<and> flightMode physics_home_landing = LAND
   \<and> alt physics_home_landing < 1 / 2 \<and> isReturningHome physics_home_landing
   \<and> (\<exists>d' p'. map_of (drones (fst (tick 100 None [] fleet_home_landing))) ''DRONE-1'' = Some d'
           \<and> dronePhysics (fst (tick 100 None [] fleet_home_landing)) ''DRONE-1'' = Some p'
           \<and> \<not> armed p' \<and> flightMode p' = STABILIZE \<and> \<not> isReturningHome p'
           \<and> deliveryWaitTime p' = 0 \<and> activeWpIndex p' = - 1
           \<and> status d' = idle \<and> assignedRoute d' = None \<and> assignedTaskId d' = None)"
proof -
  have h: "well_keyed (drones fleet_home_landing)"
    "map_of (drones fleet_home_landing) ''DRONE-1'' = Some drone1_flying"
    "assignedRoute drone1_flying = Some route_A"
    "dronePhysics fleet_home_landing ''DRONE-1'' = Some physics_home_landing"
    "armed physics_home_landing" "flightMode physics_home_landing = LAND"
    "alt physics_home_landing < 1 / 2" "isReturningHome physics_home_landing"
    by (simp_all add: fleet_home_landing_def drones_A_def well_keyed_def drone1_flying_def
        drone1_def drone2_def initial_drone_def physics_home_landing_def initial_physics_def)
  show ?thesis
    using h C1_terminal_reset[OF h, of 100 None "[]"] by blast
qed

section \<open>C2: the completion callback\<close>

lemma state_machine_position:
  "lat (fst (state_machine dt i d r p)) = lat p"
  "lng (fst (state_machine dt i d r p)) = lng p"
  "alt (fst (state_machine dt i d r p)) = alt p"
  by (auto simp: state_machine_def auto_branch_def waypoint_reached_def delivery_landing_def
      rtl_branch_def land_branch_def drain_battery_def Let_def
      split: option.splits prod.splits if_splits)

lemma movement_no_time:
  "lat (movement m 0 tgt p) = lat p"
  "lng (movement m 0 tgt p) = lng p"
  "alt (movement m 0 tgt p) = alt p"
  by (simp_all add: movement_def horizontal_def translate_def turn_def vertical_def Let_def)

lemma manual_control_unselected [simp]:
  "sel \<noteq> Some i \<Longrightarrow> manual_control m dt sel cs i d p = (p, [])"
  by (simp add: manual_control_def)

lemma tick_drone_no_time:
  assumes "tick_dt now p = 0" "sel \<noteq> Some i"
  shows "lat (fst (tick_drone now sel cs i d r p)) = lat p
       \<and> lng (fst (tick_drone now sel cs i d r p)) = lng p
       \<and> alt (fst (tick_drone now sel cs i d r p)) = alt p"
  using assms by (simp add: tick_drone_fst movement_no_time state_machine_position)

lemma tick_drone_first_landing:
  assumes "armed p" "flightMode p = AUTO" "route_at route (activeWpIndex p) = Some wp"
    "command wp = NAV_LAND"
    "getDist (lat p) (lng p) (wp_lat wp) (wp_lng wp) < WP_RADIUS" "\<bar>alt p - wp_alt wp\<bar> < 2"
    "alt p < 1 / 2" "\<not> isReturningHome p" "deliveryWaitTime p = 0"
    "assignedTaskId d = Some t" "t \<noteq> []"
  shows "UpdateRequestStatus t ms_completed \<in> set (snd (tick_drone now sel cs i d route p))
       \<and> deliveryWaitTime (fst (tick_drone now sel cs i d route p)) = tick_dt now p
       \<and> armed (fst (tick_drone now sel cs i d route p))
       \<and> activeWpIndex (fst (tick_drone now sel cs i d route p)) = activeWpIndex p
       \<and> \<not> isReturningHome (fst (tick_drone now sel cs i d route p))
       \<and> flightMode (fst (tick_drone now sel cs i d route p))
           = (if sel = Some i \<and> any_active cs then GUIDED else AUTO)
       \<and> lastTick (fst (tick_drone now sel cs i d route p)) = now"
proof -
  let ?q = "p\<lparr>lastTick := now\<rparr>"
  let ?dt = "tick_dt now p"
  have sm: "fst (state_machine ?dt i d route ?q) = fst (delivery_landing ?dt d (drain_battery ?dt ?q))
       \<and> snd (snd (state_machine ?dt i d route ?q)) = snd (delivery_landing ?dt d (drain_battery ?dt ?q))"
    by (rule state_machine_delivery[where wp = wp]) (use assms in simp_all)
  have dl: "fst (delivery_landing ?dt d (drain_battery ?dt ?q))
              = (drain_battery ?dt ?q)\<lparr>deliveryWaitTime := ?dt\<rparr>"
    "snd (delivery_landing ?dt d (drain_battery ?dt ?q)) = [UpdateRequestStatus t ms_completed]"
    using assms by (simp_all add: delivery_landing_def)
  show ?thesis
    using sm dl assms(1,2,8)
    by (simp add: tick_drone_fst tick_drone_snd manual_control_mode mode_override_def)
qed

lemma keeps_route_and_task:
  "\<forall>e \<in> set es. \<forall>j. e \<noteq> CompleteDroneTask j \<Longrightarrow>
     assignedRoute (fold (apply_effect_drone i) es d) = assignedRoute d
     \<and> assignedTaskId (fold (apply_effect_drone i) es d) = assignedTaskId d"
proof (induction es arbitrary: d)
  case Nil then show ?case by simp
next
  case (Cons e es)
  have "assignedRoute (apply_effect_drone i e d) = assignedRoute d
      \<and> assignedTaskId (apply_effect_drone i e d) = assignedTaskId d"
    using Cons.prems by (cases e) auto
  then show ?case using Cons by simp
qed

lemma tick_drone_completes_only_at_home:
  assumes "CompleteDroneTask j \<in> set (snd (tick_drone now sel cs i d r p))"
  shows "armed p \<and> flightMode p = LAND \<and> isReturningHome p \<and> alt p < 1 / 2"
proof -
  have m: "CompleteDroneTask j \<notin> set (snd (manual_control m dt sel cs i d q))" for m dt q
    using manual_control_reports[of m dt sel cs i d q] by (auto simp: list_all_iff)
  have "CompleteDroneTask j \<in> set (snd (snd (state_machine (tick_dt now p) i d r (p\<lparr>lastTick := now\<rparr>))))"
    using assms m by (auto simp: tick_drone_snd)
  then show ?thesis
    by (auto simp: state_machine_def auto_branch_def waypoint_reached_def delivery_landing_def
      rtl_branch_def land_branch_def Let_def
      split: option.splits prod.splits if_splits)
qed

lemma fleet_touchdown_facts:
  "well_keyed (drones fleet_touchdown)"
  "map_of (drones fleet_touchdown) ''DRONE-1'' = Some drone1_flying"
  "dronePhysics fleet_touchdown ''DRONE-1'' = Some physics_touchdown"
  "assignedRoute drone1_flying = Some route_A"
  "assignedTaskId drone1_flying = Some ''REQ-1''"
  "distinct (map fst (drones fleet_touchdown))"
  by (simp_all add: fleet_touchdown_def drones_A_def well_keyed_def drone1_flying_def
        drone1_def drone2_def initial_drone_def)

lemma physics_touchdown_facts:
  "armed physics_touchdown" "flightMode physics_touchdown = AUTO"
  "route_at route_A (activeWpIndex physics_touchdown) = Some \<lparr>seq = 5, command = NAV_LAND,
       wp_p1 = None, wp_lat = loc_lat PHC_Village_A, wp_lng = loc_lng PHC_Village_A, wp_alt = 0\<rparr>"
  "lat physics_touchdown = loc_lat PHC_Village_A" "lng physics_touchdown = loc_lng PHC_Village_A"
  "alt physics_touchdown = 0" "\<not> isReturningHome physics_touchdown"
  "deliveryWaitTime physics_touchdown = 0" "lastTick physics_touchdown = 0"
  "activeWpIndex physics_touchdown = 4"
  by (simp_all add: physics_touchdown_def initial_physics_def route_A_land)

text \<open>
  C2 at the failing input. Drone 1 has touched down at its landing waypoint and the next
  frame carries the timestamp of the previous one, so \<open>dt\<close> is 0. The first-landing branch
  sends the completion and stores \<open>dt\<close> in \<open>deliveryWaitTime\<close>, which therefore stays 0:
  the frame after that takes the same branch and sends the completion a second time.
\<close>

theorem C2_completion_sent_twice:
  "lastTick physics_touchdown = 0
   \<and> UpdateRequestStatus ''REQ-1'' ms_completed \<in> set (snd (tick 0 None [] fleet_touchdown))
   \<and> UpdateRequestStatus ''REQ-1'' ms_completed
        \<in> set (snd (tick 16 None [] (fst (tick 0 None [] fleet_touchdown))))"
proof -
  let ?i = "''DRONE-1''"
  let ?wp = "\<lparr>seq = 5, command = NAV_LAND, wp_p1 = None,
       wp_lat = loc_lat PHC_Village_A, wp_lng = loc_lng PHC_Village_A, wp_alt = 0\<rparr>"
  let ?t1 = "tick_drone 0 None [] ?i drone1_flying route_A physics_touchdown"
  let ?f1 = "fst (tick 0 None [] fleet_touchdown)"
  let ?d1 = "fold (apply_effect_drone ?i) (snd ?t1) drone1_flying"
  note pf = physics_touchdown_facts
  note ff = fleet_touchdown_facts
  have dt0: "tick_dt 0 physics_touchdown = 0" by (simp add: tick_dt_def pf)
  have l1: "UpdateRequestStatus ''REQ-1'' ms_completed \<in> set (snd ?t1)
       \<and> deliveryWaitTime (fst ?t1) = tick_dt 0 physics_touchdown
       \<and> armed (fst ?t1)
       \<and> activeWpIndex (fst ?t1) = activeWpIndex physics_touchdown
       \<and> \<not> isReturningHome (fst ?t1)
       \<and> flightMode (fst ?t1) = (if None = Some ?i \<and> any_active [] then GUIDED else AUTO)
       \<and> lastTick (fst ?t1) = 0"
    by (rule tick_drone_first_landing[where wp = ?wp and t = "''REQ-1''"])
       (simp_all add: pf ff WP_RADIUS_def route_A_land)
  have pos: "lat (fst ?t1) = loc_lat PHC_Village_A" "lng (fst ?t1) = loc_lng PHC_Village_A"
    "alt (fst ?t1) = 0"
    using tick_drone_no_time[OF dt0, of None ?i "[]" drone1_flying route_A] pf by simp_all
  have first: "UpdateRequestStatus ''REQ-1'' ms_completed \<in> set (snd (tick 0 None [] fleet_touchdown))"
    using l1 tick_effects_include[OF ff(6,2,3,4), of 0 None "[]"] by blast
  have v: "vehicle_step 0 None [] ?i (drone1_flying, physics_touchdown) = ((?d1, fst ?t1), snd ?t1)"
    using ff(4) by (simp add: vehicle_step_def case_prod_beta)
  have loc: "map_of (drones ?f1) ?i = Some ?d1" "dronePhysics ?f1 ?i = Some (fst ?t1)"
    using tick_local[OF ff(1,2,3), of 0 None "[]"] by (simp_all add: v)
  have nc: "\<forall>e \<in> set (snd ?t1). \<forall>j. e \<noteq> CompleteDroneTask j"
    using tick_drone_completes_only_at_home[of _ 0 None "[]" ?i drone1_flying route_A physics_touchdown]
      pf(2) by auto
  have d1: "assignedRoute ?d1 = Some route_A" "assignedTaskId ?d1 = Some ''REQ-1''"
    using keeps_route_and_task[OF nc, of ?i drone1_flying] ff(4,5) by simp_all
  have dis1: "distinct (map fst (drones ?f1))" using ff(6) by (simp add: tick_keys)
  have l2: "UpdateRequestStatus ''REQ-1'' ms_completed
              \<in> set (snd (tick_drone 16 None [] ?i ?d1 route_A (fst ?t1)))
       \<and> deliveryWaitTime (fst (tick_drone 16 None [] ?i ?d1 route_A (fst ?t1))) = tick_dt 16 (fst ?t1)
       \<and> armed (fst (tick_drone 16 None [] ?i ?d1 route_A (fst ?t1)))
       \<and> activeWpIndex (fst (tick_drone 16 None [] ?i ?d1 route_A (fst ?t1))) = activeWpIndex (fst ?t1)
       \<and> \<not> isReturningHome (fst (tick_drone 16 None [] ?i ?d1 route_A (fst ?t1)))
       \<and> flightMode (fst (tick_drone 16 None [] ?i ?d1 route_A (fst ?t1)))
            = (if None = Some ?i \<and> any_active [] then GUIDED else AUTO)
       \<and> lastTick (fst (tick_drone 16 None [] ?i ?d1 route_A (fst ?t1))) = 16"
    by (rule tick_drone_first_landing[where wp = ?wp and t = "''REQ-1''"])
       (use l1 pos d1 dt0 pf in \<open>simp_all add: WP_RADIUS_def route_A_land\<close>)
  have second: "UpdateRequestStatus ''REQ-1'' ms_completed \<in> set (snd (tick 16 None [] ?f1))"
    using l2 tick_effects_include[OF dis1 loc(1,2) d1(1), of 16 None "[]"] by blast
  show ?thesis using pf(9) first second by simp
qed

section \<open>C3: manual override of the autopilot\<close>

lemma state_machine_from_auto:
  assumes "armed p" "flightMode p = AUTO"
  shows "armed (fst (state_machine dt i d r p))
       \<and> (flightMode (fst (state_machine dt i d r p)) = AUTO
          \<or> flightMode (fst (state_machine dt i d r p)) = RTL)"
  using assms
  by (auto simp: state_machine_def auto_branch_def waypoint_reached_def delivery_landing_def
      Let_def split: option.splits prod.splits if_splits)

lemma state_machine_rtl_far:
  assumes "armed p" "flightMode p = RTL"
    "5 \<le> getDist (lat p) (lng p) (loc_lat (homeLocation p)) (loc_lng (homeLocation p))"
  shows "armed (fst (state_machine dt i d r p)) \<and> flightMode (fst (state_machine dt i d r p)) = RTL"
  using assms by (simp add: state_machine_def rtl_branch_def Let_def)

lemma state_machine_rtl_near:
  assumes "armed p" "flightMode p = RTL"
    "getDist (lat p) (lng p) (loc_lat (homeLocation p)) (loc_lng (homeLocation p)) < 5"
  shows "state_machine dt i d r p =
           ((drain_battery dt p)\<lparr>flightMode := LAND\<rparr>,
            \<lparr>targetLat = loc_lat (homeLocation p), targetLng = loc_lng (homeLocation p),
             targetAlt = max (alt p) RTL_ALT\<rparr>, [])"
  using assms by (simp add: state_machine_def rtl_branch_def Let_def)

lemma tick_drone_override:
  assumes "armed (fst (state_machine (tick_dt now p) i d r (p\<lparr>lastTick := now\<rparr>)))"
    and "flightMode (fst (state_machine (tick_dt now p) i d r (p\<lparr>lastTick := now\<rparr>))) = AUTO
       \<or> flightMode (fst (state_machine (tick_dt now p) i d r (p\<lparr>lastTick := now\<rparr>))) = RTL"
    and "any_active cs"
  shows "flightMode (fst (tick_drone now (Some i) cs i d r p)) = GUIDED
       \<and> \<not> isReturningHome (fst (tick_drone now (Some i) cs i d r p))
       \<and> armed (fst (tick_drone now (Some i) cs i d r p))"
  using assms
  by (auto simp: tick_drone_unfold manual_control_mode mode_override_def Let_def
      split: prod.splits)

lemma manual_override_in_auto:
  assumes "armed p" "flightMode p = AUTO" "any_active cs"
  shows "flightMode (fst (tick_drone now (Some i) cs i d r p)) = GUIDED
       \<and> \<not> isReturningHome (fst (tick_drone now (Some i) cs i d r p))"
  using tick_drone_override[OF _ _ assms(3), of now p i d r]
    state_machine_from_auto[of "p\<lparr>lastTick := now\<rparr>" "tick_dt now p" i d r] assms(1,2)
  by simp

lemma manual_override_in_rtl_far:
  assumes "armed p" "flightMode p = RTL" "any_active cs"
    "5 \<le> getDist (lat p) (lng p) (loc_lat (homeLocation p)) (loc_lng (homeLocation p))"
  shows "flightMode (fst (tick_drone now (Some i) cs i d r p)) = GUIDED
       \<and> \<not> isReturningHome (fst (tick_drone now (Some i) cs i d r p))"
  using tick_drone_override[OF _ _ assms(3), of now p i d r]
    state_machine_rtl_far[of "p\<lparr>lastTick := now\<rparr>" "tick_dt now p" i d r] assms(1,2,4)
  by simp

lemma no_override_rtl_near:
  assumes "armed p" "flightMode p = RTL"
    "getDist (lat p) (lng p) (loc_lat (homeLocation p)) (loc_lng (homeLocation p)) < 5"
  shows "flightMode (fst (tick_drone now sel cs i d r p)) = LAND
       \<and> isReturningHome (fst (tick_drone now sel cs i d r p)) = isReturningHome p
       \<and> armed (fst (tick_drone now sel cs i d r p))"
  using assms
  by (simp add: tick_drone_unfold state_machine_rtl_near manual_control_mode mode_override_def
      Let_def)

lemma handleManualControl_overrides:
  assumes "getSelectedPhysics sel fleet = Some p" "flightMode p = AUTO \<or> flightMode p = RTL"
  shows "\<exists>p'. getSelectedPhysics sel (snd (handleManualControl action True sel (cs, fleet))) = Some p'
           \<and> flightMode p' = GUIDED \<and> \<not> isReturningHome p'
           \<and> ctl (fst (handleManualControl action True sel (cs, fleet))) action"
  using assms
  by (auto simp: handleManualControl_def getSelectedPhysics_def store_selected_def Let_def ctl_def
      update_conv' split: option.splits)

lemma fleet_rtl_home_facts:
  "well_keyed (drones fleet_rtl_home)"
  "map_of (drones fleet_rtl_home) ''DRONE-1'' = Some drone1_flying"
  "dronePhysics fleet_rtl_home ''DRONE-1'' = Some physics_rtl_home"
  "assignedRoute drone1_flying = Some route_A"
  "armed physics_rtl_home" "flightMode physics_rtl_home = RTL" "isReturningHome physics_rtl_home"
  "getDist (lat physics_rtl_home) (lng physics_rtl_home)
     (loc_lat (homeLocation physics_rtl_home)) (loc_lng (homeLocation physics_rtl_home)) < 5"
  by (simp_all add: fleet_rtl_home_def drones_A_def well_keyed_def drone1_flying_def
        drone1_def drone2_def initial_drone_def physics_rtl_home_def initial_physics_def)

text \<open>
  C3 at the failing input. Drone 1 is armed, selected and in \<open>RTL\<close> over its home point;
  the pilot holds the "up" key. The state machine switches \<open>RTL\<close> to \<open>LAND\<close> before the
  manual-control block runs, and that block does not override \<open>LAND\<close>: after the tick the
  mode is \<open>LAND\<close>, not \<open>GUIDED\<close>, and \<open>isReturningHome\<close> is still set.
\<close>

theorem C3_rtl_near_home_lands:
  "any_active (handleKeyDown ''up'' [])
   \<and> map_option armed (getSelectedPhysics (Some ''DRONE-1'') fleet_rtl_home) = Some True
   \<and> map_option flightMode (getSelectedPhysics (Some ''DRONE-1'') fleet_rtl_home) = Some RTL
   \<and> map_option flightMode (dronePhysics (fst (tick 100 (Some ''DRONE-1'')
         (handleKeyDown ''up'' []) fleet_rtl_home)) ''DRONE-1'') = Some LAND
   \<and> map_option isReturningHome (dronePhysics (fst (tick 100 (Some ''DRONE-1'')
         (handleKeyDown ''up'' []) fleet_rtl_home)) ''DRONE-1'') = Some True"
proof -
  let ?cs = "handleKeyDown ''up'' []"
  let ?t = "tick_drone 100 (Some ''DRONE-1'') ?cs ''DRONE-1'' drone1_flying route_A physics_rtl_home"
  have v: "vehicle_step 100 (Some ''DRONE-1'') ?cs ''DRONE-1'' (drone1_flying, physics_rtl_home) =
             ((fold (apply_effect_drone ''DRONE-1'') (snd ?t) drone1_flying, fst ?t), snd ?t)"
    using fleet_rtl_home_facts(4) by (simp add: vehicle_step_def split: prod.splits)
  have a: "any_active ?cs" by (simp add: handleKeyDown_def any_active_def)
  show ?thesis
    using tick_local[OF fleet_rtl_home_facts(1,2,3), of 100 "Some ''DRONE-1''" ?cs]
      no_override_rtl_near[OF fleet_rtl_home_facts(5,6,8),
        of 100 "Some ''DRONE-1''" ?cs "''DRONE-1''" drone1_flying route_A]
      fleet_rtl_home_facts a
    by (simp add: v getSelectedPhysics_def)
qed

section \<open>C4: assigning a task\<close>

text \<open>
  C4, as amended. \<open>assignTaskToDrone\<close> checks no status and never fails: for every vehicle
  of the map, idle or not, it sets the status to \<open>dispatched\<close> and stores the task id and
  the route; no other vehicle and no key changes, and the physics records (the \<open>armed\<close>
  flags with them) are not touched.
\<close>

theorem C4_assign_overwrites:
  assumes "map_of ds droneId = Some d"
  shows "map_of (assignTaskToDrone droneId task route ds) droneId
           = Some (d\<lparr>status := dispatched, assignedTaskId := Some (req_id task),
                     assignedRoute := Some route\<rparr>)
         \<and> (\<forall>k. k \<noteq> droneId \<longrightarrow> map_of (assignTaskToDrone droneId task route ds) k = map_of ds k)
         \<and> map fst (assignTaskToDrone droneId task route ds) = map fst ds
         \<and> dronePhysics (fleet\<lparr>drones := assignTaskToDrone droneId task route (drones fleet)\<rparr>)
             = dronePhysics fleet"
  using assms by (simp add: assignTaskToDrone_def map_of_update_present keys_update_present)

theorem C4_assign_overwrites_witness:
  "map_of drones_A ''DRONE-2'' = Some drone2
   \<and> map_of (assignTaskToDrone ''DRONE-2'' request_B route_B drones_A) ''DRONE-2''
       = Some (drone2\<lparr>status := dispatched, assignedTaskId := Some ''REQ-2'',
                      assignedRoute := Some route_B\<rparr>)
   \<and> (''DRONE-1'' \<noteq> ''DRONE-2''
       \<and> map_of (assignTaskToDrone ''DRONE-2'' request_B route_B drones_A) ''DRONE-1''
           = map_of drones_A ''DRONE-1'')
   \<and> map fst (assignTaskToDrone ''DRONE-2'' request_B route_B drones_A) = map fst drones_A
   \<and> dronePhysics (fleet_home_landing\<lparr>drones :=
          assignTaskToDrone ''DRONE-2'' request_B route_B (drones fleet_home_landing)\<rparr>)
       = dronePhysics fleet_home_landing"
proof -
  have h: "map_of drones_A ''DRONE-2'' = Some drone2"
    by (simp add: drones_A_def)
  have r: "req_id request_B = ''REQ-2''" by (simp add: request_B_def)
  show ?thesis
    using h C4_assign_overwrites[OF h, of request_B route_B fleet_home_landing] r by simp
qed

text \<open>
  The claim as stated fails: drone 1 is \<open>running\<close> its mission to village A, and assigning
  it the request of village B goes through and overwrites status, task and route.
\<close>

theorem C4_counterexample:
  "status drone1_flying \<noteq> idle
   \<and> map_of (assignTaskToDrone ''DRONE-1'' request_B route_B drones_A) ''DRONE-1''
       \<noteq> map_of drones_A ''DRONE-1''
   \<and> map_option status (map_of (assignTaskToDrone ''DRONE-1'' request_B route_B drones_A) ''DRONE-1'')
       = Some dispatched
   \<and> map_option assignedTaskId
        (map_of (assignTaskToDrone ''DRONE-1'' request_B route_B drones_A) ''DRONE-1'')
       = Some (Some ''REQ-2'')"
  by (simp add: assignTaskToDrone_def drones_A_def drone1_flying_def drone1_def
      initial_drone_def request_B_def map_of_update_present)

section \<open>C5: an idle drone has no route and no task\<close>

lemma set_update_subset: "set (AList.update k v al) \<subseteq> insert (k, v) (set al)"
  by (induction al) auto

lemma fleet_idle_inv_update:
  "fleet_idle_inv ds \<Longrightarrow> idle_inv v \<Longrightarrow> fleet_idle_inv (AList.update k v ds)"
  using set_update_subset[of k v ds] by (auto simp: fleet_idle_inv_def list_all_iff)

lemma fleet_idle_inv_lookup: "fleet_idle_inv ds \<Longrightarrow> map_of ds k = Some d \<Longrightarrow> idle_inv d"
  by (auto simp: fleet_idle_inv_def list_all_iff dest: map_of_SomeD)

lemma state_machine_effects:
  "state_machine dt i drone route p = (p', tgt, es) \<Longrightarrow> list_all keeps_idle_inv es"
  by (auto simp: state_machine_def auto_branch_def waypoint_reached_def delivery_landing_def
      rtl_branch_def land_branch_def Let_def split: if_splits option.splits prod.splits)

lemma manual_control_effects:
  "manual_control m dt sel cs i drone p = (p', es) \<Longrightarrow> list_all keeps_idle_inv es"
  by (auto simp: manual_control_def mode_override_def Let_def split: if_splits prod.splits)

lemma tick_drone_effects:
  "tick_drone now sel cs i drone route p = (p', es) \<Longrightarrow> list_all keeps_idle_inv es"
  by (auto simp: tick_drone_def Let_def split: prod.splits
      dest: state_machine_effects manual_control_effects)

lemma tick_forEach_effects:
  "tick_forEach now sel cs ds phys = (phys', es) \<Longrightarrow> list_all keeps_idle_inv es"
proof (induction ds arbitrary: phys phys' es)
  case Nil then show ?case by simp
next
  case (Cons a ds)
  obtain i d where a: "a = (i, d)" by (cases a)
  show ?case using Cons.prems Cons.IH
    by (auto simp: a Let_def split: option.splits prod.splits dest: tick_drone_effects)
qed

lemma apply_effect_idle_inv:
  "keeps_idle_inv e \<Longrightarrow> fleet_idle_inv ds \<Longrightarrow> fleet_idle_inv (apply_effect e ds)"
  by (cases e)
     (auto simp: updateDroneStatus_def completeDroneTask_def updateDroneTelemetry_def idle_inv_def
       split: option.splits intro!: fleet_idle_inv_update dest: fleet_idle_inv_lookup)

lemma fold_apply_effect_idle_inv:
  "list_all keeps_idle_inv es \<Longrightarrow> fleet_idle_inv ds \<Longrightarrow> fleet_idle_inv (fold apply_effect es ds)"
  by (induction es arbitrary: ds) (auto simp: apply_effect_idle_inv)

text \<open>
  C5, as amended. The invariant "idle implies no route and no task", for every vehicle of
  the map, is kept by \<open>assignTaskToDrone\<close>, by \<open>completeDroneTask\<close> and by every tick; by
  \<open>updateDroneStatus\<close> when the new status is not \<open>idle\<close>; and by \<open>updateDroneRoute\<close>
  when the drone concerned is not idle.
\<close>

theorem C5_idle_inv_preserved:
  assumes "fleet_idle_inv ds"
  shows "fleet_idle_inv (assignTaskToDrone i task route ds)
       \<and> fleet_idle_inv (completeDroneTask i ds)
       \<and> (st \<noteq> idle \<longrightarrow> fleet_idle_inv (updateDroneStatus i st ds))
       \<and> ((\<forall>d. map_of ds i = Some d \<longrightarrow> status d \<noteq> idle)
            \<longrightarrow> fleet_idle_inv (updateDroneRoute i route ds))
       \<and> fleet_idle_inv (drones (fst (tick now sel cs \<lparr>drones = ds, dronePhysics = phys\<rparr>)))"
proof -
  have 1: "fleet_idle_inv (assignTaskToDrone i task route ds)"
    using assms by (auto simp: assignTaskToDrone_def idle_inv_def split: option.splits
        intro!: fleet_idle_inv_update)
  have 2: "fleet_idle_inv (completeDroneTask i ds)"
    using assms by (auto simp: completeDroneTask_def idle_inv_def split: option.splits
        intro!: fleet_idle_inv_update)
  have 3: "st \<noteq> idle \<Longrightarrow> fleet_idle_inv (updateDroneStatus i st ds)"
    using assms by (auto simp: updateDroneStatus_def idle_inv_def split: option.splits
        intro!: fleet_idle_inv_update)
  have 4: "(\<forall>d. map_of ds i = Some d \<longrightarrow> status d \<noteq> idle)
            \<Longrightarrow> fleet_idle_inv (updateDroneRoute i route ds)"
    using assms by (auto simp: updateDroneRoute_def idle_inv_def split: option.splits
        intro!: fleet_idle_inv_update)
  have 5: "fleet_idle_inv (drones (fst (tick now sel cs \<lparr>drones = ds, dronePhysics = phys\<rparr>)))"
    using assms
    by (auto simp: tick_def split: prod.splits
        intro!: fold_apply_effect_idle_inv dest: tick_forEach_effects)
  show ?thesis using 1 2 3 4 5 by blast
qed

theorem C5_idle_inv_preserved_witness:
  "fleet_idle_inv drones_A
   \<and> fleet_idle_inv (assignTaskToDrone ''DRONE-2'' request_B route_B drones_A)
   \<and> fleet_idle_inv (completeDroneTask ''DRONE-1'' drones_A)
   \<and> (running \<noteq> idle \<and> fleet_idle_inv (updateDroneStatus ''DRONE-2'' running drones_A))
   \<and> (map_option status (map_of drones_A ''DRONE-1'') = Some running
       \<and> fleet_idle_inv (updateDroneRoute ''DRONE-1'' route_B drones_A))
   \<and> fleet_idle_inv (drones (fst (tick 100 None []
        \<lparr>drones = drones_A, dronePhysics = dronePhysics fleet_home_landing\<rparr>)))"
proof -
  have h: "fleet_idle_inv drones_A"
    by (simp add: fleet_idle_inv_def idle_inv_def drones_A_def drone1_flying_def drone2_def
        initial_drone_def)
  have n: "\<forall>d. map_of drones_A ''DRONE-1'' = Some d \<longrightarrow> status d \<noteq> idle"
    by (simp add: drones_A_def drone1_flying_def)
  have s: "map_option status (map_of drones_A ''DRONE-1'') = Some running"
    by (simp add: drones_A_def drone1_flying_def)
  show ?thesis
    using h n s
      C5_idle_inv_preserved[OF h, of "''DRONE-2''" request_B route_B running 100 None "[]"
        "dronePhysics fleet_home_landing"]
      C5_idle_inv_preserved[OF h, of "''DRONE-1''" request_B route_B running 100 None "[]"
        "dronePhysics fleet_home_landing"]
    by simp
qed

text \<open>
  The claim as stated fails for the plain setters: \<open>updateDroneStatus\<close> with \<open>idle\<close> leaves
  the route and the task of a flying drone in place.
\<close>

theorem C5_counterexample:
  "fleet_idle_inv drones_A
   \<and> \<not> fleet_idle_inv (updateDroneStatus ''DRONE-1'' idle drones_A)"
  by (simp add: fleet_idle_inv_def idle_inv_def updateDroneStatus_def drones_A_def
      drone1_flying_def drone2_def initial_drone_def)

section \<open>C6: the battery percentage\<close>

lemma state_machine_battery:
  "battery_rem (fst (state_machine dt i d r p))
     = (if armed p then battery_rem p - (if flightMode p = STABILIZE then 1 / 100 else 5 / 100) * dt
        else battery_rem p)"
  by (auto simp: state_machine_def auto_branch_def waypoint_reached_def delivery_landing_def
      rtl_branch_def land_branch_def drain_battery_def Let_def
      split: option.splits prod.splits if_splits)

lemma state_machine_lastTick: "lastTick (fst (state_machine dt i d r p)) = lastTick p"
  by (auto simp: state_machine_def auto_branch_def waypoint_reached_def delivery_landing_def
      rtl_branch_def land_branch_def drain_battery_def Let_def
      split: option.splits prod.splits if_splits)

lemma tick_drone_battery:
  "battery_rem (fst (tick_drone now sel cs i d r p))
     = (if armed p
        then battery_rem p - (if flightMode p = STABILIZE then 1 / 100 else 5 / 100) * tick_dt now p
        else battery_rem p)"
  by (simp add: tick_drone_fst state_machine_battery)

lemma tick_drone_lastTick: "lastTick (fst (tick_drone now sel cs i d r p)) = now"
  by (simp add: tick_drone_fst state_machine_lastTick)

lemma tick_dt_nonneg: "lastTick p \<le> now \<Longrightarrow> 0 \<le> tick_dt now p"
  by (simp add: tick_dt_def)

lemma tick_dt_le: "tick_dt now p \<le> 1 / 10"
  by (simp add: tick_dt_def)

lemma tick_drone_battery_le:
  "lastTick p \<le> now \<Longrightarrow> battery_rem (fst (tick_drone now sel cs i d r p)) \<le> battery_rem p"
  using tick_dt_nonneg[of p now] by (simp add: tick_drone_battery)

lemma tick_physics_step:
  assumes "distinct (map fst (drones fleet))" and "dronePhysics fleet i = Some p"
    and "lastTick p \<le> now"
  shows "\<exists>p'. dronePhysics (fst (tick now sel cs fleet)) i = Some p'
           \<and> battery_rem p' \<le> battery_rem p \<and> lastTick p' \<le> now"
proof -
  obtain phys' es where t: "tick_forEach now sel cs (drones fleet) (dronePhysics fleet) = (phys', es)"
    by force
  show ?thesis
    using tick_forEach_physics[OF t assms(1), of i] assms(2,3)
    by (auto simp: tick_def t tick_drone_battery_le tick_drone_lastTick split: option.splits)
qed

lemma tick_battery:
  assumes "distinct (map fst (drones fleet))" and "dronePhysics fleet i = Some p"
  shows "\<exists>p1. dronePhysics (fst (tick now sel cs fleet)) i = Some p1
           \<and> battery_rem p1
               = (if armed p \<and> Option.bind (map_of (drones fleet) i) assignedRoute \<noteq> None
                  then battery_rem p
                       - (if flightMode p = STABILIZE then 1 / 100 else 5 / 100) * tick_dt now p
                  else battery_rem p)"
proof -
  obtain phys' es where t: "tick_forEach now sel cs (drones fleet) (dronePhysics fleet) = (phys', es)"
    by force
  show ?thesis
    using tick_forEach_physics[OF t assms(1), of i] assms(2)
    by (auto simp: tick_def t tick_drone_battery split: option.splits)
qed

lemma run_ticks_battery_le:
  assumes "distinct (map fst (drones fleet))" and "dronePhysics fleet i = Some p"
    and "sorted (lastTick p # map fst inputs)"
  shows "\<exists>p'. dronePhysics (run_ticks inputs fleet) i = Some p'
           \<and> battery_rem p' \<le> battery_rem p"
  using assms
proof (induction inputs arbitrary: fleet p)
  case Nil then show ?case by simp
next
  case (Cons a inputs)
  obtain now sel cs where a: "a = (now, sel, cs)" by (cases a)
  have le: "lastTick p \<le> now" and srt: "sorted (now # map fst inputs)"
    using Cons.prems(3) a by auto
  obtain p1 where p1: "dronePhysics (fst (tick now sel cs fleet)) i = Some p1"
    "battery_rem p1 \<le> battery_rem p" "lastTick p1 \<le> now"
    using tick_physics_step[OF Cons.prems(1,2) le, of sel cs] by blast
  have s1: "sorted (lastTick p1 # map fst inputs)"
    using srt p1(3) by (auto simp: dest: order_trans)
  have d1: "distinct (map fst (drones (fst (tick now sel cs fleet))))"
    using Cons.prems(1) by (simp add: tick_keys)
  obtain p' where "dronePhysics (run_ticks inputs (fst (tick now sel cs fleet))) i = Some p'"
    "battery_rem p' \<le> battery_rem p1"
    using Cons.IH[OF d1 p1(1) s1] by blast
  then show ?case using p1(2) a by auto
qed

text \<open>
  C6, as amended. Nothing clamps the battery percentage. In one tick, a vehicle that is
  armed and whose drone has an assigned route loses exactly \<open>0.01 * dt\<close> percent in
  \<open>STABILIZE\<close> and \<open>0.05 * dt\<close> percent in every other mode (the mode and the armed flag
  as they are when the tick starts, \<open>dt\<close> the clamped step of that tick), whatever the
  percentage was, also at or below 0; every other vehicle keeps its percentage. So over
  any number of ticks whose timestamps do not go backwards the percentage never rises,
  and starting at or below 100 it stays at or below 100.
\<close>

theorem C6_battery_drains_unclamped:
  assumes "distinct (map fst (drones fleet))" and "dronePhysics fleet i = Some p"
    and "sorted (lastTick p # map fst inputs)" and "battery_rem p \<le> 100"
  shows "(\<exists>p1. dronePhysics (fst (tick now sel cs fleet)) i = Some p1
           \<and> battery_rem p1
               = (if armed p \<and> Option.bind (map_of (drones fleet) i) assignedRoute \<noteq> None
                  then battery_rem p
                       - (if flightMode p = STABILIZE then 1 / 100 else 5 / 100) * tick_dt now p
                  else battery_rem p))
       \<and> (\<exists>p'. dronePhysics (run_ticks inputs fleet) i = Some p'
           \<and> battery_rem p' \<le> battery_rem p \<and> battery_rem p' \<le> 100)"
proof -
  obtain p' where "dronePhysics (run_ticks inputs fleet) i = Some p'"
    "battery_rem p' \<le> battery_rem p"
    using run_ticks_battery_le[OF assms(1,2,3)] by blast
  then have "\<exists>p'. dronePhysics (run_ticks inputs fleet) i = Some p'
           \<and> battery_rem p' \<le> battery_rem p \<and> battery_rem p' \<le> 100"
    using assms(4) by auto
  then show ?thesis
    using tick_battery[OF assms(1,2), of now sel cs] by blast
qed

theorem C6_battery_drains_unclamped_witness:
  "distinct (map fst (drones fleet_flat_battery))
   \<and> dronePhysics fleet_flat_battery ''DRONE-1'' = Some physics_flat_battery
   \<and> sorted (lastTick physics_flat_battery
              # map fst [(100, None, []), (200, Some ''DRONE-1'', [])])
   \<and> battery_rem physics_flat_battery \<le> 100
   \<and> armed physics_flat_battery \<and> flightMode physics_flat_battery = STABILIZE
   \<and> tick_dt 100 physics_flat_battery = 1 / 10
   \<and> (\<exists>p1. dronePhysics (fst (tick 100 None [] fleet_flat_battery)) ''DRONE-1'' = Some p1
           \<and> battery_rem p1 = battery_rem physics_flat_battery - 1 / 100 * (1 / 10))
   \<and> (\<exists>p'. dronePhysics (run_ticks [(100, None, []), (200, Some ''DRONE-1'', [])]
                 fleet_flat_battery) ''DRONE-1'' = Some p'
           \<and> battery_rem p' \<le> battery_rem physics_flat_battery \<and> battery_rem p' \<le> 100)"
proof -
  have h: "distinct (map fst (drones fleet_flat_battery))"
    "dronePhysics fleet_flat_battery ''DRONE-1'' = Some physics_flat_battery"
    "sorted (lastTick physics_flat_battery
              # map fst [(100, None, []), (200, Some ''DRONE-1'', [])])"
    "battery_rem physics_flat_battery \<le> 100"
    by (simp_all add: fleet_flat_battery_def drones_A_def physics_flat_battery_def
          initial_physics_def)
  have c: "armed physics_flat_battery" "flightMode physics_flat_battery = STABILIZE"
    "tick_dt 100 physics_flat_battery = 1 / 10"
    "Option.bind (map_of (drones fleet_flat_battery) ''DRONE-1'') assignedRoute \<noteq> None"
    by (simp_all add: fleet_flat_battery_def drones_A_def physics_flat_battery_def
          initial_physics_def tick_dt_def drone1_flying_def)
  have a: "(if armed physics_flat_battery
              \<and> Option.bind (map_of (drones fleet_flat_battery) ''DRONE-1'') assignedRoute \<noteq> None
           then battery_rem physics_flat_battery
                - (if flightMode physics_flat_battery = STABILIZE then 1 / 100 else 5 / 100)
                  * tick_dt 100 physics_flat_battery
           else battery_rem physics_flat_battery)
          = battery_rem physics_flat_battery - 1 / 100 * (1 / 10)"
    by (simp only: c simp_thms if_True)
  show ?thesis
    using h c(1,2,3) C6_battery_drains_unclamped[OF h, of 100 None "[]"]
    unfolding a by blast
qed

text \<open>
  The claim as stated fails: there is no clamp. An armed drone at 0 percent is at -0.001
  percent after a tick of 100 ms.
\<close>

theorem C6_counterexample:
  "map_option battery_rem (dronePhysics fleet_flat_battery ''DRONE-1'') = Some 0
   \<and> map_option battery_rem (dronePhysics (fst (tick 100 None [] fleet_flat_battery)) ''DRONE-1'')
       = Some (- (1 / 1000))"
proof -
  obtain phys' es where t: "tick_forEach 100 None [] (drones fleet_flat_battery)
      (dronePhysics fleet_flat_battery) = (phys', es)"
    by force
  have d: "distinct (map fst (drones fleet_flat_battery))"
    by (simp add: fleet_flat_battery_def drones_A_def)
  have m: "map_of (drones fleet_flat_battery) ''DRONE-1'' = Some drone1_flying"
    "dronePhysics fleet_flat_battery ''DRONE-1'' = Some physics_flat_battery"
    "assignedRoute drone1_flying = Some route_A"
    by (simp_all add: fleet_flat_battery_def drones_A_def drone1_flying_def)
  have b: "battery_rem (fst (tick_drone 100 None [] ''DRONE-1'' drone1_flying route_A
             physics_flat_battery)) = - (1 / 1000)"
    by (simp add: tick_drone_battery tick_dt_def physics_flat_battery_def initial_physics_def)
  have "phys' ''DRONE-1'' = Some (fst (tick_drone 100 None [] ''DRONE-1'' drone1_flying route_A
             physics_flat_battery))"
    using tick_forEach_physics[OF t d, of "''DRONE-1''"] m by simp
  then show ?thesis
    using b by (simp add: tick_def t) (simp add: fleet_flat_battery_def physics_flat_battery_def)
qed

section \<open>C7: a waypoint index past the end of the route\<close>

lemma state_machine_past_end:
  assumes "armed p" "flightMode p = AUTO" "int (length route) \<le> activeWpIndex p"
  shows "state_machine dt i d route p =
           (drain_battery dt p, \<lparr>targetLat = lat p, targetLng = lng p, targetAlt = alt p\<rparr>, [])"
  using assms by (simp add: state_machine_def auto_branch_def route_at_def Let_def)

lemma tick_drone_past_end:
  assumes "armed p" "flightMode p = AUTO" "int (length route) \<le> activeWpIndex p"
  shows "activeWpIndex (fst (tick_drone now sel cs i d route p)) = activeWpIndex p
       \<and> armed (fst (tick_drone now sel cs i d route p))
       \<and> deliveryWaitTime (fst (tick_drone now sel cs i d route p)) = deliveryWaitTime p
       \<and> flightMode (fst (tick_drone now sel cs i d route p))
           = (if sel = Some i \<and> any_active cs then GUIDED else AUTO)
       \<and> list_all is_report (snd (tick_drone now sel cs i d route p))"
  using assms
  by (simp add: tick_drone_unfold state_machine_past_end manual_control_mode mode_override_def
      manual_control_reports Let_def)


lemma tick_past_end:
  assumes "well_keyed (drones fleet)" and "map_of (drones fleet) i = Some d"
    and "assignedRoute d = Some route" and "dronePhysics fleet i = Some p"
    and "armed p" and "flightMode p = AUTO" and "int (length route) \<le> activeWpIndex p"
  shows "\<exists>d' p'. map_of (drones (fst (tick now sel cs fleet))) i = Some d'
           \<and> dronePhysics (fst (tick now sel cs fleet)) i = Some p'
           \<and> activeWpIndex p' = activeWpIndex p \<and> armed p'
           \<and> flightMode p' = (if sel = Some i \<and> any_active cs then GUIDED else AUTO)
           \<and> deliveryWaitTime p' = deliveryWaitTime p
           \<and> status d' = status d \<and> assignedRoute d' = Some route
           \<and> assignedTaskId d' = assignedTaskId d"
proof -
  let ?t = "tick_drone now sel cs i d route p"
  have v: "vehicle_step now sel cs i (d, p) =
             ((fold (apply_effect_drone i) (snd ?t) d, fst ?t), snd ?t)"
    using assms(3) by (simp add: vehicle_step_def split: prod.splits)
  show ?thesis
    using tick_local[OF assms(1,2,4), of now sel cs]
      tick_drone_past_end[OF assms(5-7), of now sel cs i d]
      reports_keep_mission[of "snd ?t" i d] assms(3)
    by (simp add: v)
qed

lemma state_machine_guided:
  assumes "armed p" "flightMode p = GUIDED"
  shows "state_machine dt i d route p =
           (drain_battery dt p, \<lparr>targetLat = lat p, targetLng = lng p, targetAlt = alt p\<rparr>, [])"
  using assms by (simp add: state_machine_def Let_def)

lemma tick_drone_guided:
  assumes "armed p" "flightMode p = GUIDED"
  shows "activeWpIndex (fst (tick_drone now sel cs i d route p)) = activeWpIndex p
       \<and> armed (fst (tick_drone now sel cs i d route p))
       \<and> flightMode (fst (tick_drone now sel cs i d route p)) = GUIDED
       \<and> list_all is_report (snd (tick_drone now sel cs i d route p))"
  using assms
  by (simp add: tick_drone_unfold state_machine_guided manual_control_mode mode_override_def
      manual_control_reports Let_def)

lemma tick_drone_stuck:
  assumes "armed p" "flightMode p = AUTO \<or> flightMode p = GUIDED"
    "int (length route) \<le> activeWpIndex p"
  shows "activeWpIndex (fst (tick_drone now sel cs i d route p)) = activeWpIndex p
       \<and> armed (fst (tick_drone now sel cs i d route p))
       \<and> (flightMode (fst (tick_drone now sel cs i d route p)) = AUTO
          \<or> flightMode (fst (tick_drone now sel cs i d route p)) = GUIDED)
       \<and> list_all is_report (snd (tick_drone now sel cs i d route p))"
proof (cases "flightMode p = AUTO")
  case True
  then show ?thesis
    using tick_drone_past_end[OF assms(1) True assms(3), of now sel cs i d] by auto
next
  case False
  then have g: "flightMode p = GUIDED" using assms(2) by simp
  show ?thesis using tick_drone_guided[OF assms(1) g, of now sel cs i d route] by simp
qed

lemma apply_effect_drone_id: "drone_id (apply_effect_drone i e d) = drone_id d"
  by (cases e) auto

lemma fold_apply_effect_drone_id: "drone_id (fold (apply_effect_drone i) es d) = drone_id d"
  by (induction es arbitrary: d) (auto simp: apply_effect_drone_id)

lemma well_keyed_iff:
  "well_keyed ds = (distinct (map fst ds) \<and> (\<forall>k d. map_of ds k = Some d \<longrightarrow> drone_id d = k))"
  by (auto simp: well_keyed_def list_all_iff dest: map_of_SomeD)

lemma well_keyed_tick:
  assumes "well_keyed (drones fleet)"
  shows "well_keyed (drones (fst (tick now sel cs fleet)))"
proof -
  obtain phys' es where t: "tick_forEach now sel cs (drones fleet) (dronePhysics fleet) = (phys', es)"
    by force
  have d: "drones (fst (tick now sel cs fleet)) = fold apply_effect es (drones fleet)"
    by (simp add: tick_def t)
  show ?thesis
    using assms unfolding well_keyed_iff d
    by (auto simp: keys_fold_apply_effect map_of_fold_apply_effect fold_apply_effect_drone_id)
qed

lemma tick_stuck:
  assumes "well_keyed (drones fleet)" and "map_of (drones fleet) i = Some d"
    and "assignedRoute d = Some route" and "dronePhysics fleet i = Some p"
    and "armed p" and "flightMode p = AUTO \<or> flightMode p = GUIDED"
    and "int (length route) \<le> activeWpIndex p"
  shows "\<exists>d' p'. map_of (drones (fst (tick now sel cs fleet))) i = Some d'
           \<and> dronePhysics (fst (tick now sel cs fleet)) i = Some p'
           \<and> activeWpIndex p' = activeWpIndex p \<and> armed p'
           \<and> (flightMode p' = AUTO \<or> flightMode p' = GUIDED)
           \<and> status d' = status d \<and> assignedRoute d' = Some route
           \<and> assignedTaskId d' = assignedTaskId d"
proof -
  let ?t = "tick_drone now sel cs i d route p"
  have v: "vehicle_step now sel cs i (d, p) =
             ((fold (apply_effect_drone i) (snd ?t) d, fst ?t), snd ?t)"
    using assms(3) by (simp add: vehicle_step_def split: prod.splits)
  show ?thesis
    using tick_local[OF assms(1,2,4), of now sel cs]
      tick_drone_stuck[OF assms(5-7), of now sel cs i d]
      reports_keep_mission[of "snd ?t" i d] assms(3)
    by (simp add: v)
qed

lemma run_ticks_stuck:
  assumes "well_keyed (drones fleet)" and "map_of (drones fleet) i = Some d"
    and "assignedRoute d = Some route" and "dronePhysics fleet i = Some p"
    and "armed p" and "flightMode p = AUTO \<or> flightMode p = GUIDED"
    and "int (length route) \<le> activeWpIndex p"
  shows "\<exists>d' p'. map_of (drones (run_ticks inputs fleet)) i = Some d'
           \<and> dronePhysics (run_ticks inputs fleet) i = Some p'
           \<and> activeWpIndex p' = activeWpIndex p \<and> armed p'
           \<and> (flightMode p' = AUTO \<or> flightMode p' = GUIDED)
           \<and> status d' = status d \<and> assignedRoute d' = Some route
           \<and> assignedTaskId d' = assignedTaskId d"
  using assms
proof (induction inputs arbitrary: fleet d p)
  case Nil then show ?case by simp
next
  case (Cons a inputs)
  obtain now sel cs where a: "a = (now, sel, cs)" by (cases a)
  let ?f = "fst (tick now sel cs fleet)"
  obtain d1 p1 where s: "map_of (drones ?f) i = Some d1" "dronePhysics ?f i = Some p1"
    "activeWpIndex p1 = activeWpIndex p" "armed p1"
    "flightMode p1 = AUTO \<or> flightMode p1 = GUIDED"
    "status d1 = status d" "assignedRoute d1 = Some route" "assignedTaskId d1 = assignedTaskId d"
    using tick_stuck[OF Cons.prems, of now sel cs] by blast
  have w: "well_keyed (drones ?f)" using Cons.prems(1) by (rule well_keyed_tick)
  have l: "int (length route) \<le> activeWpIndex p1" using s(3) Cons.prems(7) by simp
  show ?case
    using Cons.IH[OF w s(1) s(7) s(2) s(4) s(5) l] s(3,6,8) a by simp
qed

text \<open>
  C7. What the code does with a vehicle armed in \<open>AUTO\<close> whose \<open>activeWpIndex\<close> is at or
  past the length of its assigned route: the waypoint lookup is undefined and the
  waypoint logic is skipped, in every tick from then on. After any number of ticks the
  index is what it was (it is not clamped), the vehicle is still armed, in \<open>AUTO\<close> (or in
  \<open>GUIDED\<close> once manual input has overridden it), and the status, the route and the task
  of its drone are unchanged (the mission is not completed).
\<close>

theorem C7_index_past_end:
  assumes "well_keyed (drones fleet)" and "map_of (drones fleet) i = Some d"
    and "assignedRoute d = Some route" and "dronePhysics fleet i = Some p"
    and "armed p" and "flightMode p = AUTO" and "int (length route) \<le> activeWpIndex p"
  shows "\<exists>d' p'. map_of (drones (run_ticks inputs fleet)) i = Some d'
           \<and> dronePhysics (run_ticks inputs fleet) i = Some p'
           \<and> route_at route (activeWpIndex p) = None
           \<and> activeWpIndex p' = activeWpIndex p \<and> armed p'
           \<and> (flightMode p' = AUTO \<or> flightMode p' = GUIDED)
           \<and> status d' = status d \<and> assignedRoute d' = Some route
           \<and> assignedTaskId d' = assignedTaskId d"
proof -
  have r: "route_at route (activeWpIndex p) = None"
    using assms(7) by (simp add: route_at_def)
  have m: "flightMode p = AUTO \<or> flightMode p = GUIDED" using assms(6) by simp
  show ?thesis
    using run_ticks_stuck[OF assms(1-5) m assms(7), of inputs] r by simp
qed

lemma fleet_rerouted_facts:
  "well_keyed (drones fleet_rerouted)"
  "map_of (drones fleet_rerouted) ''DRONE-1'' = Some (drone1_flying\<lparr>assignedRoute := Some route_short\<rparr>)"
  "dronePhysics fleet_rerouted ''DRONE-1'' = Some physics_enroute"
  "armed physics_enroute" "flightMode physics_enroute = AUTO"
  "int (length route_short) \<le> activeWpIndex physics_enroute"
  "activeWpIndex physics_enroute = 4" "length route_short = 3"
  by (simp_all add: fleet_rerouted_def drones_A_def well_keyed_def drone1_flying_def
        drone1_def drone2_def initial_drone_def physics_enroute_def initial_physics_def
        updateDroneRoute_def route_short_def route_A_def generateRouteForTask_def)

theorem C7_index_past_end_witness:
  "well_keyed (drones fleet_rerouted)
   \<and> map_of (drones fleet_rerouted) ''DRONE-1''
       = Some (drone1_flying\<lparr>assignedRoute := Some route_short\<rparr>)
   \<and> dronePhysics fleet_rerouted ''DRONE-1'' = Some physics_enroute
   \<and> armed physics_enroute \<and> flightMode physics_enroute = AUTO
   \<and> int (length route_short) \<le> activeWpIndex physics_enroute
   \<and> (\<exists>d' p'. map_of (drones (run_ticks [(100, None, []), (200, Some ''DRONE-1'', [])]
                                 fleet_rerouted)) ''DRONE-1'' = Some d'
           \<and> dronePhysics (run_ticks [(100, None, []), (200, Some ''DRONE-1'', [])]
                              fleet_rerouted) ''DRONE-1'' = Some p'
           \<and> route_at route_short (activeWpIndex physics_enroute) = None
           \<and> activeWpIndex p' = activeWpIndex physics_enroute \<and> armed p'
           \<and> (flightMode p' = AUTO \<or> flightMode p' = GUIDED)
           \<and> status d' = running \<and> assignedRoute d' = Some route_short
           \<and> assignedTaskId d' = Some ''REQ-1'')"
proof -
  have a: "assignedRoute (drone1_flying\<lparr>assignedRoute := Some route_short\<rparr>) = Some route_short"
    by simp
  have b: "status (drone1_flying\<lparr>assignedRoute := Some route_short\<rparr>) = running"
    "assignedTaskId (drone1_flying\<lparr>assignedRoute := Some route_short\<rparr>) = Some ''REQ-1''"
    by (simp_all add: drone1_flying_def)
  show ?thesis
    using fleet_rerouted_facts(1-6)
      C7_index_past_end[OF fleet_rerouted_facts(1,2) a fleet_rerouted_facts(3,4,5,6),
        of "[(100, None, []), (200, Some ''DRONE-1'', [])]"]
    unfolding b by blast
qed

text \<open>
  The failing input: drone 1 is on its way to waypoint 4 of five when its route is
  replaced by one of three waypoints. The tick neither clamps the index nor completes the
  mission: the vehicle stays armed in \<open>AUTO\<close> with index 4, its drone running on the new
  route.
\<close>

theorem C7_counterexample:
  "length route_short = 3
   \<and> map_option activeWpIndex (dronePhysics (fst (tick 100 None [] fleet_rerouted)) ''DRONE-1'')
       = Some 4
   \<and> map_option armed (dronePhysics (fst (tick 100 None [] fleet_rerouted)) ''DRONE-1'')
       = Some True
   \<and> map_option flightMode (dronePhysics (fst (tick 100 None [] fleet_rerouted)) ''DRONE-1'')
       = Some AUTO
   \<and> map_option status (map_of (drones (fst (tick 100 None [] fleet_rerouted))) ''DRONE-1'')
       = Some running
   \<and> map_option assignedRoute (map_of (drones (fst (tick 100 None [] fleet_rerouted))) ''DRONE-1'')
       = Some (Some route_short)"
proof -
  have a: "assignedRoute (drone1_flying\<lparr>assignedRoute := Some route_short\<rparr>) = Some route_short"
    by simp
  show ?thesis
    using fleet_rerouted_facts
      tick_past_end[OF fleet_rerouted_facts(1,2) a fleet_rerouted_facts(3,4,5,6),
        of 100 None "[]"]
    by (auto simp: drone1_flying_def)
qed

section \<open>C8: the simulation speed multiplier\<close>

lemma turn_product:
  assumes "m1 * dt1 = m2 * dt2"
  shows "turn m1 dt1 tgt p = turn m2 dt2 tgt p"
proof -
  have e: "30 * dt1 * m1 = 30 * dt2 * m2" using assms by (simp add: mult.commute)
  show ?thesis unfolding turn_def Let_def e ..
qed

lemma translate_product:
  assumes "m1 * dt1 = m2 * dt2"
  shows "translate m1 dt1 g p = translate m2 dt2 g p"
proof -
  have e: "g * dt1 * m1 = g * dt2 * m2" using assms by (simp add: mult.commute mult.assoc)
  show ?thesis unfolding translate_def Let_def e ..
qed

lemma horizontal_product:
  "m1 * dt1 = m2 * dt2 \<Longrightarrow> horizontal m1 dt1 tgt p = horizontal m2 dt2 tgt p"
  by (simp add: horizontal_def turn_product[of m1 dt1 m2 dt2] translate_product[of m1 dt1 m2 dt2])

lemma horizontal_after_vertical:
  "lat (horizontal m dt tgt (vertical m' dt' tgt' p)) = lat (horizontal m dt tgt p)"
  "lng (horizontal m dt tgt (vertical m' dt' tgt' p)) = lng (horizontal m dt tgt p)"
  "heading (horizontal m dt tgt (vertical m' dt' tgt' p)) = heading (horizontal m dt tgt p)"
  "vSpeed (horizontal m dt tgt q) = vSpeed q"
  "alt (horizontal m dt tgt q) = alt q"
  by (simp_all add: horizontal_def translate_def turn_def vertical_def Let_def case_prod_beta)

text \<open>
  C8, as amended. One integrator step depends on the multiplier and on \<open>dt\<close> only through
  their product as far as heading and horizontal position go, and the altitude moves by
  the vertical speed times that product. The vertical speed itself follows its lag with
  the unscaled \<open>dt\<close>: it is the same for every multiplier.
\<close>

theorem C8_multiplier_scales_displacement:
  assumes "m1 * dt1 = m2 * dt2"
  shows "lat (movement m1 dt1 tgt p) = lat (movement m2 dt2 tgt p)
       \<and> lng (movement m1 dt1 tgt p) = lng (movement m2 dt2 tgt p)
       \<and> heading (movement m1 dt1 tgt p) = heading (movement m2 dt2 tgt p)
       \<and> vSpeed (movement m1 dt1 tgt p) = vSpeed (movement 1 dt1 tgt p)
       \<and> alt (movement m1 dt1 tgt p)
           = (if armed p then alt p + vSpeed (movement m1 dt1 tgt p) * (m1 * dt1) else alt p)"
  using horizontal_product[OF assms, of tgt p]
  by (simp add: movement_def horizontal_after_vertical)
     (simp add: vertical_def Let_def mult.commute mult.assoc)

theorem C8_multiplier_scales_displacement_witness:
  "(4::real) * (1 / 32) = 2 * (1 / 16)
   \<and> lat (movement 4 (1 / 32) target_A physics_takeoff)
       = lat (movement 2 (1 / 16) target_A physics_takeoff)
   \<and> lng (movement 4 (1 / 32) target_A physics_takeoff)
       = lng (movement 2 (1 / 16) target_A physics_takeoff)
   \<and> heading (movement 4 (1 / 32) target_A physics_takeoff)
       = heading (movement 2 (1 / 16) target_A physics_takeoff)
   \<and> vSpeed (movement 4 (1 / 32) target_A physics_takeoff)
       = vSpeed (movement 1 (1 / 32) target_A physics_takeoff)
   \<and> alt (movement 4 (1 / 32) target_A physics_takeoff)
       = alt physics_takeoff + vSpeed (movement 4 (1 / 32) target_A physics_takeoff) * (4 * (1 / 32))"
proof -
  have h: "(4::real) * (1 / 32) = 2 * (1 / 16)" by simp
  have a: "armed physics_takeoff" by (simp add: physics_takeoff_def)
  show ?thesis
    using h a C8_multiplier_scales_displacement[OF h, of target_A physics_takeoff]
    by simp
qed

text \<open>
  The claim as stated fails. Multiplier 4 with steps of 31.25 ms and multiplier 2 with steps
  of 62.5 ms cover the same simulated time per step and reach the same horizontal point,
  but at different altitudes: the climb is not the same curve.
\<close>

theorem C8_counterexample:
  "(4::real) * (1 / 32) = 2 * (1 / 16)
   \<and> lat (movement 4 (1 / 32) target_A physics_takeoff)
       = lat (movement 2 (1 / 16) target_A physics_takeoff)
   \<and> lng (movement 4 (1 / 32) target_A physics_takeoff)
       = lng (movement 2 (1 / 16) target_A physics_takeoff)
   \<and> alt (movement 4 (1 / 32) target_A physics_takeoff) = 5 / 128
   \<and> alt (movement 2 (1 / 16) target_A physics_takeoff) = 5 / 64"
proof -
  have h: "(4::real) * (1 / 32) = 2 * (1 / 16)" by simp
  have a: "alt (movement 4 (1 / 32) target_A physics_takeoff) = 5 / 128"
    "alt (movement 2 (1 / 16) target_A physics_takeoff) = 5 / 64"
    by (simp_all add: movement_def horizontal_after_vertical)
       (simp_all add: vertical_def physics_takeoff_def initial_physics_def target_A_def)
  show ?thesis
    using h a horizontal_product[OF h, of target_A physics_takeoff]
    by (simp add: movement_def horizontal_after_vertical physics_takeoff_def)
qed

section \<open>Geodesy: the formulas in exact arithmetic\<close>

text \<open>
  The lemmas of this section are about the formulas of \<open>getDist\<close>, \<open>getBearing\<close> and the
  forward projection read over the real numbers. The program evaluates them in double
  precision; the rounding of that evaluation is not modelled here.
\<close>

lemma atan2_range: "- pi < atan2 y x \<and> atan2 y x \<le> pi"
proof -
  have b: "- (pi / 2) < arctan (y / x)" "arctan (y / x) < pi / 2"
    using arctan_lbound[of "y / x"] arctan_ubound[of "y / x"] by auto
  have z: "x < 0 \<Longrightarrow> 0 \<le> y \<Longrightarrow> arctan (y / x) \<le> 0"
    by (simp add: divide_nonneg_neg)
  have w: "x < 0 \<Longrightarrow> y < 0 \<Longrightarrow> 0 < arctan (y / x)"
    by (simp add: divide_neg_neg)
  show ?thesis
    using b z w pi_gt_zero by (auto simp: atan2_def)
qed

lemma atan2_cos_sin:
  assumes "x \<noteq> 0 \<or> y \<noteq> 0"
  shows "cos (atan2 y x) = x / sqrt (x\<^sup>2 + y\<^sup>2) \<and> sin (atan2 y x) = y / sqrt (x\<^sup>2 + y\<^sup>2)"
proof (cases "x = 0")
  case True
  then have "y \<noteq> 0" using assms by simp
  then show ?thesis using True by (auto simp: atan2_def real_sqrt_abs abs_if)
next
  case False
  have q: "1 + (y / x)\<^sup>2 = (x\<^sup>2 + y\<^sup>2) / x\<^sup>2"
    using False by (simp add: power_divide field_simps)
  have s: "sqrt (1 + (y / x)\<^sup>2) = sqrt (x\<^sup>2 + y\<^sup>2) / \<bar>x\<bar>"
    by (simp add: q real_sqrt_divide)
  have p: "0 < sqrt (x\<^sup>2 + y\<^sup>2)" using False by (simp add: sum_power2_gt_zero_iff)
  show ?thesis
  proof (cases "0 < x")
    case True
    then show ?thesis using s p by (simp add: atan2_def cos_arctan sin_arctan)
  next
    case f: False
    then have n: "x < 0" using False by simp
    have c: "cos (arctan (y / x)) = - x / sqrt (x\<^sup>2 + y\<^sup>2)"
      using s p n by (simp add: cos_arctan)
    have si: "sin (arctan (y / x)) = - y / sqrt (x\<^sup>2 + y\<^sup>2)"
      using s p n by (simp add: sin_arctan field_simps)
    show ?thesis using n c si by (auto simp: atan2_def)
  qed
qed

lemma atan2_polar:
  assumes "0 < r" "- pi < t" "t \<le> pi"
  shows "atan2 (r * sin t) (r * cos t) = t"
proof -
  let ?a = "atan2 (r * sin t) (r * cos t)"
  have nz: "r * cos t \<noteq> 0 \<or> r * sin t \<noteq> 0"
    using assms(1) sin_zero_abs_cos_one[of t] by auto
  have n: "(r * cos t)\<^sup>2 + (r * sin t)\<^sup>2 = r\<^sup>2"
    by (simp add: power_mult_distrib distrib_left[symmetric])
  have cs: "cos ?a = cos t" "sin ?a = sin t"
    using atan2_cos_sin[OF nz] assms(1) by (simp_all add: n)
  then obtain k :: int where k: "?a = t + 2 * pi * of_int k"
    using sin_cos_eq_iff[of ?a t] by auto
  have r: "- pi < ?a" "?a \<le> pi" using atan2_range by auto
  have "- 2 * pi < 2 * pi * of_int k" "2 * pi * of_int k < 2 * pi"
    using k r assms(2,3) by linarith+
  then have b: "pi * (- 1) < pi * of_int k" "pi * of_int k < pi * 1"
    by simp_all
  have "- 1 < (of_int k :: real)" "(of_int k :: real) < 1"
    using b[unfolded mult_less_cancel_left_pos[OF pi_gt_zero]] by simp_all
  then have "k = 0" by linarith
  then show ?thesis using k by simp
qed

lemma toRad_toDeg [simp]: "toRad (toDeg x) = x"
  by (simp add: toRad_def toDeg_def)

lemma toRad_diff: "toRad (x - y) = toRad x - toRad y"
  by (simp add: toRad_def diff_divide_distrib left_diff_distrib)

lemma sin_half_squared: "(sin (x / 2))\<^sup>2 = (1 - cos x) / 2" for x :: real
  using cos_double_sin[of "x / 2"] by simp

lemma sphere_alg1:
  fixes a b c e t u :: real
  assumes "a\<^sup>2 + b\<^sup>2 = 1" "c\<^sup>2 + e\<^sup>2 = 1" "t\<^sup>2 + u\<^sup>2 = 1"
  shows "1 - (a * c + b * e * t)\<^sup>2 = (b * c - a * e * t)\<^sup>2 + (u * e)\<^sup>2"
  using assms by algebra

lemma sphere_alg2:
  fixes a b c e t u :: real
  assumes "a\<^sup>2 + b\<^sup>2 = 1" "c\<^sup>2 + e\<^sup>2 = 1" "t\<^sup>2 + u\<^sup>2 = 1"
  shows "(c - a * (a * c + b * e * t))\<^sup>2 + (u * e * b)\<^sup>2 = b\<^sup>2 * (1 - (a * c + b * e * t)\<^sup>2)"
  using assms by algebra

lemma dest_sin_bounds:
  fixes p dl h :: real
  shows "- 1 \<le> sin p * cos dl + cos p * sin dl * cos h
       \<and> sin p * cos dl + cos p * sin dl * cos h \<le> 1"
proof -
  let ?s = "sin p * cos dl + cos p * sin dl * cos h"
  have "1 - ?s\<^sup>2 = (cos p * cos dl - sin p * sin dl * cos h)\<^sup>2 + (sin h * sin dl)\<^sup>2"
    by (rule sphere_alg1) simp_all
  moreover have "0 \<le> (cos p * cos dl - sin p * sin dl * cos h)\<^sup>2 + (sin h * sin dl)\<^sup>2"
    by simp
  ultimately have "?s\<^sup>2 \<le> 1" by linarith
  then have "\<bar>?s\<bar> \<le> 1" by (simp add: abs_square_le_1)
  then show ?thesis by (simp add: abs_le_iff)
qed

lemma dest_lng_components:
  fixes p dl h :: real
  assumes "0 \<le> cos p"
  defines "s \<equiv> sin p * cos dl + cos p * sin dl * cos h"
  defines "X \<equiv> cos dl - sin p * s"
  defines "Y \<equiv> sin h * sin dl * cos p"
  shows "cos p * cos (arcsin s) * cos (atan2 Y X) = X
       \<and> cos p * cos (arcsin s) * sin (atan2 Y X) = Y"
proof -
  have sb: "- 1 \<le> s" "s \<le> 1" using dest_sin_bounds[of p dl h] by (simp_all add: s_def)
  have ca: "cos (arcsin s) = sqrt (1 - s\<^sup>2)" using sb by (simp add: cos_arcsin)
  have n: "X\<^sup>2 + Y\<^sup>2 = (cos p)\<^sup>2 * (1 - s\<^sup>2)"
    unfolding X_def Y_def s_def by (rule sphere_alg2) simp_all
  have r: "sqrt (X\<^sup>2 + Y\<^sup>2) = cos p * cos (arcsin s)"
    using assms(1) by (simp add: n ca real_sqrt_mult)
  show ?thesis
  proof (cases "X = 0 \<and> Y = 0")
    case True
    then have "cos p * cos (arcsin s) = 0" using r by simp
    then show ?thesis using True by simp
  next
    case False
    then have nz: "X \<noteq> 0 \<or> Y \<noteq> 0" by simp
    define R where "R = cos p * cos (arcsin s)"
    have "0 < X\<^sup>2 + Y\<^sup>2" using nz by (simp add: sum_power2_gt_zero_iff)
    then have "0 < sqrt (X\<^sup>2 + Y\<^sup>2)" by simp
    then have pos: "0 < R" using r by (simp add: R_def)
    have "cos (atan2 Y X) = X / R" "sin (atan2 Y X) = Y / R"
      using atan2_cos_sin[OF nz] r by (simp_all add: R_def)
    then have "R * cos (atan2 Y X) = X" "R * sin (atan2 Y X) = Y"
      using pos by simp_all
    then show ?thesis by (simp add: R_def)
  qed
qed

lemma haversine_of_destination:
  fixes p dl h :: real
  assumes "0 \<le> cos p"
  defines "s \<equiv> sin p * cos dl + cos p * sin dl * cos h"
  defines "X \<equiv> cos dl - sin p * s"
  defines "Y \<equiv> sin h * sin dl * cos p"
  shows "(sin ((arcsin s - p) / 2))\<^sup>2 + cos p * cos (arcsin s) * (sin (atan2 Y X / 2))\<^sup>2
           = (sin (dl / 2))\<^sup>2"
proof -
  have sb: "- 1 \<le> s" "s \<le> 1" using dest_sin_bounds[of p dl h] by (simp_all add: s_def)
  have k: "cos p * cos (arcsin s) * cos (atan2 Y X) = X"
    using dest_lng_components[OF assms(1), of dl h] by (simp add: s_def X_def Y_def)
  have c: "cos (arcsin s - p) = cos (arcsin s) * cos p + s * sin p"
    using sb by (simp add: cos_diff)
  have "(sin ((arcsin s - p) / 2))\<^sup>2 + cos p * cos (arcsin s) * (sin (atan2 Y X / 2))\<^sup>2
          = (1 - cos (arcsin s) * cos p - s * sin p) / 2
            + (cos p * cos (arcsin s) - cos p * cos (arcsin s) * cos (atan2 Y X)) / 2"
    by (simp add: sin_half_squared c algebra_simps)
  also have "\<dots> = (1 - s * sin p - cos p * cos (arcsin s) * cos (atan2 Y X)) / 2"
    by (simp add: field_simps)
  also have "\<dots> = (1 - s * sin p - X) / 2"
    by (simp only: k)
  also have "\<dots> = (1 - cos dl) / 2"
    by (simp add: X_def algebra_simps)
  finally show ?thesis by (simp add: sin_half_squared)
qed

lemma bearing_components:
  fixes p dl h :: real
  assumes "0 < cos p"
  defines "s \<equiv> sin p * cos dl + cos p * sin dl * cos h"
  defines "X \<equiv> cos dl - sin p * s"
  defines "Y \<equiv> sin h * sin dl * cos p"
  shows "sin (atan2 Y X) * cos (arcsin s) = sin dl * sin h
       \<and> cos p * sin (arcsin s) - sin p * cos (arcsin s) * cos (atan2 Y X) = sin dl * cos h"
proof -
  have sb: "- 1 \<le> s" "s \<le> 1" using dest_sin_bounds[of p dl h] by (simp_all add: s_def)
  have nn: "0 \<le> cos p" using assms(1) by simp
  have k: "cos p * cos (arcsin s) * cos (atan2 Y X) = X"
    "cos p * cos (arcsin s) * sin (atan2 Y X) = Y"
    using dest_lng_components[OF nn, of dl h] by (simp_all add: s_def X_def Y_def)
  have "cos p * (sin (atan2 Y X) * cos (arcsin s)) = cos p * (sin dl * sin h)"
    using k(2) by (simp add: Y_def algebra_simps)
  then have y: "sin (atan2 Y X) * cos (arcsin s) = sin dl * sin h"
    using assms(1) by simp
  have "cos p * (cos p * sin (arcsin s) - sin p * cos (arcsin s) * cos (atan2 Y X))
          = (cos p)\<^sup>2 * s - sin p * X"
    using sb k(1) by (simp add: algebra_simps power2_eq_square)
  also have "\<dots> = cos p * (sin dl * cos h)"
    unfolding X_def s_def using sin_cos_squared_add[of p] by algebra
  finally have "cos p * (cos p * sin (arcsin s) - sin p * cos (arcsin s) * cos (atan2 Y X))
          = cos p * (sin dl * cos h)" .
  then have x: "cos p * sin (arcsin s) - sin p * cos (arcsin s) * cos (atan2 Y X) = sin dl * cos h"
    using assms(1) by simp
  show ?thesis using x y by simp
qed

lemma toRad_bounds:
  assumes "- 90 \<le> x" "x \<le> 90"
  shows "- (pi / 2) \<le> toRad x \<and> toRad x \<le> pi / 2"
proof -
  have "x * pi \<le> 90 * pi" by (rule mult_right_mono) (use assms in simp_all)
  moreover have "(- 90) * pi \<le> x * pi" by (rule mult_right_mono) (use assms in simp_all)
  ultimately show ?thesis by (simp add: toRad_def)
qed

lemma toRad_bounds_strict:
  assumes "- 90 < x" "x < 90"
  shows "- (pi / 2) < toRad x \<and> toRad x < pi / 2"
proof -
  have "x * pi < 90 * pi" by (rule mult_strict_right_mono) (use assms in simp_all)
  moreover have "(- 90) * pi < x * pi" by (rule mult_strict_right_mono) (use assms in simp_all)
  ultimately show ?thesis by (simp add: toRad_def)
qed

lemma destination_parts:
  fixes lat1 lng1 b d :: real
  shows "toRad (fst (destination lat1 lng1 b d))
           = arcsin (sin (toRad lat1) * cos (d / 6371000)
                     + cos (toRad lat1) * sin (d / 6371000) * cos (toRad b))"
    and "toRad (fst (destination lat1 lng1 b d) - lat1)
           = arcsin (sin (toRad lat1) * cos (d / 6371000)
                     + cos (toRad lat1) * sin (d / 6371000) * cos (toRad b)) - toRad lat1"
    and "toRad (snd (destination lat1 lng1 b d) - lng1)
           = atan2 (sin (toRad b) * sin (d / 6371000) * cos (toRad lat1))
                   (cos (d / 6371000) - sin (toRad lat1)
                      * (sin (toRad lat1) * cos (d / 6371000)
                         + cos (toRad lat1) * sin (d / 6371000) * cos (toRad b)))"
proof -
  let ?s = "sin (toRad lat1) * cos (d / 6371000)
            + cos (toRad lat1) * sin (d / 6371000) * cos (toRad b)"
  have sb: "- 1 \<le> ?s" "?s \<le> 1"
    using dest_sin_bounds[of "toRad lat1" "d / 6371000" "toRad b"] by simp_all
  have ss: "sin (arcsin ?s) = ?s" using sb by simp
  show "toRad (fst (destination lat1 lng1 b d)) = arcsin ?s"
    by (simp add: destination_def Let_def)
  show "toRad (fst (destination lat1 lng1 b d) - lat1) = arcsin ?s - toRad lat1"
    by (simp add: destination_def Let_def toRad_diff)
  show "toRad (snd (destination lat1 lng1 b d) - lng1)
           = atan2 (sin (toRad b) * sin (d / 6371000) * cos (toRad lat1))
                   (cos (d / 6371000) - sin (toRad lat1) * ?s)"
    by (simp add: destination_def Let_def toRad_diff ss)
qed

lemma getDist_destination:
  assumes "- 90 \<le> lat1" "lat1 \<le> 90" "0 \<le> d" "d \<le> 50000"
  shows "getDist lat1 lng1 (fst (destination lat1 lng1 b d)) (snd (destination lat1 lng1 b d)) = d"
proof -
  let ?p = "toRad lat1"
  let ?h = "toRad b"
  let ?dl = "d / 6371000"
  have cp: "0 \<le> cos ?p"
    using toRad_bounds[OF assms(1,2)] by (simp add: cos_ge_zero)
  have dl0: "0 \<le> ?dl" using assms(3) by simp
  have "?dl \<le> 2" using assms(4) by simp
  then have dl1: "?dl / 2 \<le> pi / 2" "?dl / 2 \<le> pi" using pi_ge_two by simp_all
  note hv = haversine_of_destination[OF cp, where dl = ?dl and h = ?h]
  have sn: "0 \<le> sin (?dl / 2)" using dl0 dl1 by (intro sin_ge_zero) simp_all
  have cn: "0 \<le> cos (?dl / 2)" using dl0 dl1 pi_gt_zero by (intro cos_ge_zero) linarith+
  have r1: "sqrt ((sin (?dl / 2))\<^sup>2) = 1 * sin (?dl / 2)" using sn by simp
  have r2: "sqrt (1 - (sin (?dl / 2))\<^sup>2) = 1 * cos (?dl / 2)"
    using cn by (simp add: cos_squared_eq[symmetric])
  have lo: "- pi < ?dl / 2" using dl0 pi_gt_zero by linarith
  have at: "atan2 (sqrt ((sin (?dl / 2))\<^sup>2)) (sqrt (1 - (sin (?dl / 2))\<^sup>2)) = ?dl / 2"
    unfolding r1 r2 using lo dl1(2) by (intro atan2_polar) simp_all
  have "getDist lat1 lng1 (fst (destination lat1 lng1 b d)) (snd (destination lat1 lng1 b d))
          = 6371000 * 2 * atan2 (sqrt ((sin (?dl / 2))\<^sup>2)) (sqrt (1 - (sin (?dl / 2))\<^sup>2))"
    unfolding getDist_def Let_def destination_parts hv ..
  then show ?thesis unfolding at by simp
qed

lemma js_rem_turn:
  assumes "0 \<le> b" "b < 360"
  shows "js_rem (b + 360) 360 = b" "js_rem b 360 = b"
proof -
  have f1: "\<lfloor>(b + 360) / 360\<rfloor> = 1" using assms by (simp add: floor_eq_iff)
  have f0: "\<lfloor>b / 360\<rfloor> = 0" using assms by (simp add: floor_eq_iff)
  show "js_rem (b + 360) 360 = b" using assms f1 by (simp add: js_rem_def js_trunc_def)
  show "js_rem b 360 = b" using assms f0 by (simp add: js_rem_def js_trunc_def)
qed

lemma getBearing_destination:
  assumes "- 90 < lat1" "lat1 < 90" "0 \<le> b" "b < 360" "0 < d" "d \<le> 50000"
  shows "getBearing lat1 lng1 (fst (destination lat1 lng1 b d)) (snd (destination lat1 lng1 b d)) = b"
proof -
  let ?p = "toRad lat1"
  let ?h = "toRad b"
  let ?dl = "d / 6371000"
  have cp: "0 < cos ?p"
    using toRad_bounds_strict[OF assms(1,2)] by (simp add: cos_gt_zero_pi)
  have dl0: "0 < ?dl" using assms(5) by simp
  have "?dl < 2" using assms(6) by simp
  then have dl1: "?dl < pi" using pi_ge_two by linarith
  have sd: "0 < sin ?dl" using dl0 dl1 by (rule sin_gt_zero)
  note bc = bearing_components[OF cp, where dl = ?dl and h = ?h]
  have g: "getBearing lat1 lng1 (fst (destination lat1 lng1 b d)) (snd (destination lat1 lng1 b d))
          = js_rem (toDeg (atan2 (sin ?dl * sin ?h) (sin ?dl * cos ?h)) + 360) 360"
    unfolding getBearing_def Let_def destination_parts bc[THEN conjunct1] bc[THEN conjunct2] ..
  have "b * pi < 360 * pi" by (rule mult_strict_right_mono) (use assms(4) in simp_all)
  moreover have "0 \<le> b * pi" using assms(3) by simp
  ultimately have hb: "0 \<le> ?h" "?h < 2 * pi" by (simp_all add: toRad_def)
  show ?thesis
  proof (cases "b \<le> 180")
    case True
    have "b * pi \<le> 180 * pi" by (rule mult_right_mono) (use True in simp_all)
    then have "?h \<le> pi" by (simp add: toRad_def)
    moreover have "- pi < ?h" using hb(1) pi_gt_zero by linarith
    ultimately have "atan2 (sin ?dl * sin ?h) (sin ?dl * cos ?h) = ?h"
      using sd by (intro atan2_polar) simp_all
    then show ?thesis
      unfolding g using js_rem_turn[OF assms(3,4)] by (simp add: toRad_def toDeg_def)
  next
    case False
    have "180 * pi < b * pi" by (rule mult_strict_right_mono) (use False in simp_all)
    then have "pi < ?h" by (simp add: toRad_def)
    then have hl: "- pi < ?h - 2 * pi" "?h - 2 * pi \<le> pi"
      using hb by linarith+
    have "atan2 (sin ?dl * sin (?h - 2 * pi)) (sin ?dl * cos (?h - 2 * pi)) = ?h - 2 * pi"
      using hl sd by (intro atan2_polar) simp_all
    then have a: "atan2 (sin ?dl * sin ?h) (sin ?dl * cos ?h) = ?h - 2 * pi"
      by (simp add: sin_diff cos_diff)
    have "toDeg (?h - 2 * pi) = b - 360"
      by (simp add: toRad_def toDeg_def diff_divide_distrib left_diff_distrib)
    then show ?thesis
      unfolding g a using js_rem_turn[OF assms(3,4)] by simp
  qed
qed

text \<open>
  Over the reals the projection and the two measurements are inverse to each other: from
  an origin that is not a pole, for a bearing in \<open>[0, 360)\<close> and a distance above 0 and up
  to 50 km, the bearing to the projected point is the bearing projected and its distance
  is the distance projected.
\<close>

lemma geodesy_round_trip_exact:
  assumes "- 90 < lat1" "lat1 < 90" "0 \<le> b" "b < 360" "0 < d" "d \<le> 50000"
  shows "getBearing lat1 lng1 (fst (destination lat1 lng1 b d)) (snd (destination lat1 lng1 b d)) = b
       \<and> getDist lat1 lng1 (fst (destination lat1 lng1 b d)) (snd (destination lat1 lng1 b d)) = d"
  using getBearing_destination[OF assms] getDist_destination[of lat1 d lng1 b] assms
  by simp

text \<open>
  At a pole the formulas degenerate. From the north pole the projection with bearing 0
  lies on the meridian of longitude 0, and the bearing from the pole back to it is 180.
\<close>

lemma getBearing_from_north_pole:
  "getBearing 90 0 (fst (destination 90 0 0 1000)) (snd (destination 90 0 0 1000)) = 180"
proof -
  let ?dl = "1 / 6371 :: real"
  have d: "0 < ?dl" "?dl < pi" using pi_ge_two by simp_all
  have sd: "0 < sin ?dl" using d by (rule sin_gt_zero)
  have c: "cos (arcsin (cos ?dl)) = sin ?dl"
    using sd by (simp add: cos_arcsin cos_squared_eq[symmetric] sin_squared_eq[symmetric])
  have x: "atan2 0 (- sin ?dl) = pi"
    using sd by (simp add: atan2_def)
  have z: "atan2 0 0 = 0" by (simp add: atan2_def)
  have f: "\<lfloor>540 / 360 :: real\<rfloor> = 1" by (simp add: floor_eq_iff)
  have r: "toRad 90 = pi / 2" "toRad 0 = 0" by (simp_all add: toRad_def)
  have "getBearing 90 0 (fst (destination 90 0 0 1000)) (snd (destination 90 0 0 1000))
          = js_rem (toDeg pi + 360) 360"
    unfolding getBearing_def Let_def destination_parts
    by (simp add: r z c x)
  also have "\<dots> = 180"
    using f by (simp add: toDeg_def js_rem_def js_trunc_def)
  finally show ?thesis .
qed

section \<open>C10: an explicit mode change during the delivery wait\<close>

lemma state_machine_stays_manual:
  assumes "flightMode p \<in> manual_modes" "\<not> isReturningHome p"
  shows "flightMode (fst (state_machine dt i d r p)) \<in> manual_modes
       \<and> \<not> isReturningHome (fst (state_machine dt i d r p))"
  using assms
  by (auto simp: manual_modes_def state_machine_def land_branch_def Let_def)

lemma tick_drone_stays_manual:
  assumes "flightMode p \<in> manual_modes" "\<not> isReturningHome p"
  shows "flightMode (fst (tick_drone now sel cs i d r p)) \<in> manual_modes
       \<and> \<not> isReturningHome (fst (tick_drone now sel cs i d r p))"
  using state_machine_stays_manual[of "p\<lparr>lastTick := now\<rparr>" "tick_dt now p" i d r] assms
  by (auto simp: tick_drone_fst manual_control_mode mode_override_def manual_modes_def)

lemma tick_stays_manual:
  assumes "distinct (map fst (drones fleet))" and "dronePhysics fleet i = Some p"
    and "flightMode p \<in> manual_modes" and "\<not> isReturningHome p"
  shows "\<exists>p'. dronePhysics (fst (tick now sel cs fleet)) i = Some p'
           \<and> flightMode p' \<in> manual_modes \<and> \<not> isReturningHome p'"
proof -
  obtain phys' es where t: "tick_forEach now sel cs (drones fleet) (dronePhysics fleet) = (phys', es)"
    by force
  show ?thesis
    using tick_forEach_physics[OF t assms(1), of i] assms(2,3,4)
      tick_drone_stays_manual[OF assms(3,4)]
    by (auto simp: tick_def t split: option.splits)
qed

lemma run_ticks_stays_manual:
  assumes "distinct (map fst (drones fleet))" and "dronePhysics fleet i = Some p"
    and "flightMode p \<in> manual_modes" and "\<not> isReturningHome p"
  shows "\<exists>p'. dronePhysics (run_ticks inputs fleet) i = Some p'
           \<and> flightMode p' \<in> manual_modes \<and> \<not> isReturningHome p'"
  using assms
proof (induction inputs arbitrary: fleet p)
  case Nil then show ?case by simp
next
  case (Cons a inputs)
  obtain now sel cs where a: "a = (now, sel, cs)" by (cases a)
  obtain p1 where p1: "dronePhysics (fst (tick now sel cs fleet)) i = Some p1"
    "flightMode p1 \<in> manual_modes" "\<not> isReturningHome p1"
    using tick_stays_manual[OF Cons.prems, of now sel cs] by blast
  have d1: "distinct (map fst (drones (fst (tick now sel cs fleet))))"
    using Cons.prems(1) by (simp add: tick_keys)
  show ?case using Cons.IH[OF d1 p1] a by simp
qed

lemma setMode_selected:
  assumes "setMode mode sel fleet = Inr fleet'"
  shows "\<exists>i d p. sel = Some i \<and> map_of (drones fleet) i = Some d \<and> dronePhysics fleet i = Some p
           \<and> setMode_physics mode d p = Inr (the (dronePhysics fleet' i))
           \<and> dronePhysics fleet' i \<noteq> None \<and> drones fleet' = drones fleet"
  using assms
  by (auto simp: setMode_def getSelectedDrone_def getSelectedPhysics_def store_selected_def
      split: option.splits sum.splits)

text \<open>
  C10, as amended. A successful \<open>setMode\<close> to a mode other than \<open>RTL\<close> sets that mode on
  the selected vehicle and resets \<open>isReturningHome\<close> to false and \<open>deliveryWaitTime\<close> to 0.
  When the mode is also not \<open>AUTO\<close>, no sequence of ticks brings the vehicle back to
  \<open>AUTO\<close> or \<open>RTL\<close> or sets \<open>isReturningHome\<close>: the automatic return stays cancelled.
\<close>

theorem C10_setMode_cancels:
  assumes "setMode mode sel fleet = Inr fleet'" and "mode \<noteq> RTL"
  shows "\<exists>i p'. sel = Some i \<and> dronePhysics fleet' i = Some p'
           \<and> flightMode p' = mode \<and> \<not> isReturningHome p' \<and> deliveryWaitTime p' = 0
           \<and> (mode \<noteq> AUTO \<and> distinct (map fst (drones fleet)) \<longrightarrow>
                (\<forall>inputs. \<exists>q. dronePhysics (run_ticks inputs fleet') i = Some q
                    \<and> flightMode q \<noteq> AUTO \<and> flightMode q \<noteq> RTL \<and> \<not> isReturningHome q))"
proof -
  obtain i d p where s: "sel = Some i" "map_of (drones fleet) i = Some d"
    "dronePhysics fleet i = Some p"
    "setMode_physics mode d p = Inr (the (dronePhysics fleet' i))"
    "dronePhysics fleet' i \<noteq> None" "drones fleet' = drones fleet"
    using setMode_selected[OF assms(1)] by blast
  obtain p' where p': "dronePhysics fleet' i = Some p'" using s(5) by auto
  have f: "flightMode p' = mode" "\<not> isReturningHome p'" "deliveryWaitTime p' = 0"
    using s(4) p' assms(2)
    by (auto simp: setMode_physics_def Let_def split: if_splits)
  have r: "\<exists>q. dronePhysics (run_ticks inputs fleet') i = Some q
              \<and> flightMode q \<noteq> AUTO \<and> flightMode q \<noteq> RTL \<and> \<not> isReturningHome q"
    if m: "mode \<noteq> AUTO" and dis: "distinct (map fst (drones fleet))" for inputs
  proof -
    have mm: "flightMode p' \<in> manual_modes"
      using f(1) m assms(2) by (cases mode) (auto simp: manual_modes_def)
    have d': "distinct (map fst (drones fleet'))" using dis s(6) by simp
    show ?thesis
      using run_ticks_stays_manual[OF d' p' mm f(2), of inputs]
      by (auto simp: manual_modes_def)
  qed
  show ?thesis using s(1) p' f r by blast
qed

lemma fleet_resumed_facts:
  "distinct (map fst (drones fleet_resumed))"
  "map_of (drones fleet_resumed) ''DRONE-1'' = Some drone1_flying"
  "dronePhysics fleet_resumed ''DRONE-1''
     = Some (physics_waiting\<lparr>flightMode := AUTO, isReturningHome := False, deliveryWaitTime := 0\<rparr>)"
  "assignedRoute drone1_flying = Some route_A"
  "assignedTaskId drone1_flying = Some ''REQ-1''"
  by (simp_all add: fleet_resumed_def fleet_waiting_def drones_A_def drone1_flying_def)

text \<open>
  The claim as stated fails for \<open>AUTO\<close>. Drone 1 is 1.5 s into its delivery wait when the
  pilot presses \<open>AUTO\<close>: the timer is reset to 0, and on the next tick the landing is
  taken for a first landing again. The completion is sent once more and the wait that
  leads to the automatic return runs again from the start.
\<close>

theorem C10_counterexample:
  "0 < deliveryWaitTime physics_waiting \<and> deliveryWaitTime physics_waiting < 3
   \<and> setMode AUTO (Some ''DRONE-1'') fleet_waiting = Inr fleet_resumed
   \<and> map_option deliveryWaitTime (dronePhysics fleet_resumed ''DRONE-1'') = Some 0
   \<and> map_option deliveryWaitTime
        (dronePhysics (fst (tick 100 (Some ''DRONE-1'') [] fleet_resumed)) ''DRONE-1'')
       = Some (1 / 10)
   \<and> map_option flightMode
        (dronePhysics (fst (tick 100 (Some ''DRONE-1'') [] fleet_resumed)) ''DRONE-1'')
       = Some AUTO
   \<and> UpdateRequestStatus ''REQ-1'' ms_completed
        \<in> set (snd (tick 100 (Some ''DRONE-1'') [] fleet_resumed))"
proof -
  let ?p = "physics_waiting\<lparr>flightMode := AUTO, isReturningHome := False, deliveryWaitTime := 0\<rparr>"
  let ?q = "?p\<lparr>lastTick := 100\<rparr>"
  let ?t = "tick_drone 100 (Some ''DRONE-1'') [] ''DRONE-1'' drone1_flying route_A ?p"
  have w: "0 < deliveryWaitTime physics_waiting \<and> deliveryWaitTime physics_waiting < 3"
    by (simp add: physics_waiting_def)
  have s: "setMode AUTO (Some ''DRONE-1'') fleet_waiting = Inr fleet_resumed"
    by (simp add: setMode_def setMode_physics_def getSelectedDrone_def getSelectedPhysics_def
        store_selected_def fleet_waiting_def fleet_resumed_def drones_A_def drone1_flying_def
        physics_waiting_def route_A_def generateRouteForTask_def Let_def)
  have dt: "tick_dt 100 ?p = 1 / 10"
    by (simp add: tick_dt_def physics_waiting_def initial_physics_def)
  have sm: "fst (state_machine (1 / 10) ''DRONE-1'' drone1_flying route_A ?q)
              = fst (delivery_landing (1 / 10) drone1_flying (drain_battery (1 / 10) ?q))
          \<and> snd (snd (state_machine (1 / 10) ''DRONE-1'' drone1_flying route_A ?q))
              = snd (delivery_landing (1 / 10) drone1_flying (drain_battery (1 / 10) ?q))"
    by (rule state_machine_delivery[where wp = "\<lparr>seq = 5, command = NAV_LAND, wp_p1 = None,
       wp_lat = loc_lat PHC_Village_A, wp_lng = loc_lng PHC_Village_A, wp_alt = 0\<rparr>"])
       (simp_all add: physics_waiting_def initial_physics_def route_A_land WP_RADIUS_def)
  have dl: "deliveryWaitTime (fst (delivery_landing (1 / 10) drone1_flying (drain_battery (1 / 10) ?q)))
              = 1 / 10"
    "flightMode (fst (delivery_landing (1 / 10) drone1_flying (drain_battery (1 / 10) ?q))) = AUTO"
    "armed (fst (delivery_landing (1 / 10) drone1_flying (drain_battery (1 / 10) ?q)))"
    "snd (delivery_landing (1 / 10) drone1_flying (drain_battery (1 / 10) ?q))
       = [UpdateRequestStatus ''REQ-1'' ms_completed]"
    by (simp_all add: delivery_landing_def physics_waiting_def initial_physics_def
        drone1_flying_def)
  have p: "deliveryWaitTime (fst ?t) = 1 / 10" "flightMode (fst ?t) = AUTO"
    using sm dl by (simp_all add: tick_drone_fst dt manual_control_mode mode_override_def any_active_def)
  have e: "UpdateRequestStatus ''REQ-1'' ms_completed \<in> set (snd ?t)"
    using sm dl by (simp add: tick_drone_snd dt)
  show ?thesis
    using w s p e tick_physics_of[OF fleet_resumed_facts(1,2,3,4), of 100 "Some ''DRONE-1''" "[]"]
      tick_effects_include[OF fleet_resumed_facts(1,2,3,4), of 100 "Some ''DRONE-1''" "[]"]
      fleet_resumed_facts(3)
    by auto
qed


theorem C10_setMode_cancels_witness:
  "setMode LOITER (Some ''DRONE-1'') fleet_waiting = Inr fleet_loitering
   \<and> LOITER \<noteq> RTL \<and> LOITER \<noteq> AUTO \<and> distinct (map fst (drones fleet_waiting))
   \<and> (\<exists>p'. dronePhysics fleet_loitering ''DRONE-1'' = Some p'
          \<and> flightMode p' = LOITER \<and> \<not> isReturningHome p' \<and> deliveryWaitTime p' = 0)
   \<and> (\<exists>q. dronePhysics (run_ticks [(100, Some ''DRONE-1'', [(''up'', True)]), (200, None, [])]
               fleet_loitering) ''DRONE-1'' = Some q
          \<and> flightMode q \<noteq> AUTO \<and> flightMode q \<noteq> RTL \<and> \<not> isReturningHome q)"
proof -
  have s: "setMode LOITER (Some ''DRONE-1'') fleet_waiting = Inr fleet_loitering"
    by (simp add: setMode_def setMode_physics_def getSelectedDrone_def getSelectedPhysics_def
        store_selected_def fleet_waiting_def fleet_loitering_def drones_A_def Let_def)
  have n: "LOITER \<noteq> RTL" by simp
  have d: "distinct (map fst (drones fleet_waiting))"
    by (simp add: fleet_waiting_def drones_A_def)
  obtain i p' where r: "Some ''DRONE-1'' = Some i" "dronePhysics fleet_loitering i = Some p'"
    "flightMode p' = LOITER" "\<not> isReturningHome p'" "deliveryWaitTime p' = 0"
    "LOITER \<noteq> AUTO \<and> distinct (map fst (drones fleet_waiting)) \<longrightarrow>
       (\<forall>inputs. \<exists>q. dronePhysics (run_ticks inputs fleet_loitering) i = Some q
           \<and> flightMode q \<noteq> AUTO \<and> flightMode q \<noteq> RTL \<and> \<not> isReturningHome q)"
    using C10_setMode_cancels[OF s n] by blast
  have i: "i = ''DRONE-1''" using r(1) by simp
  have "\<exists>q. dronePhysics (run_ticks [(100, Some ''DRONE-1'', [(''up'', True)]), (200, None, [])]
               fleet_loitering) ''DRONE-1'' = Some q
          \<and> flightMode q \<noteq> AUTO \<and> flightMode q \<noteq> RTL \<and> \<not> isReturningHome q"
    using r(6) d i by blast
  then show ?thesis
    using s d r(2-5) i by blast
qed


end
